theory Spec2Isabelle
  imports Main "HOL-Library.AList"
begin

section \<open>The preprocessor state\<close>

text \<open>
  \<^verbatim>\<open>flang/include/flang/Common/api-attrs.h\<close> consists of preprocessor directives only.
  What it computes is a macro table, from the macro table it is given (the identifiers
  predefined by the compiler, by the build system and by the including file). Each group
  of directives is embedded as a function on the state of the preprocessor:
  \<^verbatim>\<open>#if\<close>/\<^verbatim>\<open>#elif\<close>/\<^verbatim>\<open>#else\<close> become \<open>if\<close>/\<open>else\<close>, \<^verbatim>\<open>#define\<close> and \<^verbatim>\<open>#undef\<close> update the
  table, \<^verbatim>\<open>#error\<close> records its message.

  A replacement list is a list of preprocessing tokens. \<^verbatim>\<open>_Pragma("...")\<close> is an operator
  of the language applied to a string literal and never subject to macro replacement; it
  is one token here.
\<close>

datatype token =
    Ident string
  | IntLit int
  | StrLit string
  | Punct string
  | PragmaOp string

text \<open>
  The state: the table of object-like macros (name and replacement list), what is known
  of the one function-like macro the header tests, \<^verbatim>\<open>__has_attribute\<close> (\<open>None\<close>: it is not
  defined; \<open>Some as\<close>: it is defined and \<^verbatim>\<open>__has_attribute(a)\<close> is non-zero exactly for the
  names \<open>a\<close> in \<open>as\<close>), the messages of the \<^verbatim>\<open>#error\<close> directives reached, and a mark
  \<open>unevaluated\<close> that is set where the header meets a controlling expression outside
  the expressions this model evaluates (see \<open>if_value\<close>): from such a state on the
  model says nothing of what the preprocessor does.
\<close>

record pp_state =
  macros :: "(string \<times> token list) list"
  has_attribute :: "string list option"
  errors :: "string list"
  unevaluated :: bool

definition lookup :: "pp_state \<Rightarrow> string \<Rightarrow> token list option" where
  "lookup st n = map_of (macros st) n"

definition is_defined :: "pp_state \<Rightarrow> string \<Rightarrow> bool" where
  "is_defined st n = (lookup st n \<noteq> None)"

text \<open>
  \<^verbatim>\<open>#define n body\<close>. Where \<open>n\<close> is defined already the new replacement list takes its
  place (compilers warn of a redefinition and go on with the new one).
\<close>

definition define_macro :: "string \<Rightarrow> token list \<Rightarrow> pp_state \<Rightarrow> pp_state" where
  "define_macro n body st = st\<lparr>macros := AList.update n body (macros st)\<rparr>"

definition undef_macro :: "string \<Rightarrow> pp_state \<Rightarrow> pp_state" where
  "undef_macro n st = st\<lparr>macros := AList.delete n (macros st)\<rparr>"

definition pp_error :: "string \<Rightarrow> pp_state \<Rightarrow> pp_state" where
  "pp_error msg st = st\<lparr>errors := errors st @ [msg]\<rparr>"

definition succeeds :: "pp_state \<Rightarrow> bool" where
  "succeeds st = (errors st = [])"

subsection \<open>Macro replacement\<close>

text \<open>
  Replacement of object-like macros in a token list. An identifier that names a macro is
  replaced by its replacement list, which is rescanned with that name hidden (a macro is
  not replaced inside its own expansion); \<open>hid\<close> holds the hidden names.
\<close>

function expand :: "string list \<Rightarrow> (string \<times> token list) list \<Rightarrow> token list \<Rightarrow> token list" where
  "expand hid env [] = []"
| "expand hid env (Ident x # ts) =
     (case map_of env x of
        None \<Rightarrow> Ident x # expand hid env ts
      | Some body \<Rightarrow>
          if x \<in> set hid then Ident x # expand hid env ts
          else expand (x # hid) env body @ expand hid env ts)"
| "expand hid env (IntLit n # ts) = IntLit n # expand hid env ts"
| "expand hid env (StrLit s # ts) = StrLit s # expand hid env ts"
| "expand hid env (Punct s # ts) = Punct s # expand hid env ts"
| "expand hid env (PragmaOp s # ts) = PragmaOp s # expand hid env ts"
  by pat_completeness auto
termination
proof (relation "measures [\<lambda>(hid, env, ts). length (filter (\<lambda>k. k \<notin> set hid) (map fst env)),
                           \<lambda>(hid, env, ts). length ts]", goal_cases)
  case 1
  show ?case by simp
next
  case (4 hid env x ts body)
  from \<open>map_of env x = Some body\<close> have "x \<in> set (map fst env)"
    by (metis map_of_eq_None_iff option.distinct(1) set_map)
  with \<open>x \<notin> set hid\<close> have "x \<in> set (filter (\<lambda>k. k \<notin> set hid) (map fst env))"
    by simp
  then have "length (filter (\<lambda>k. k \<noteq> x) (filter (\<lambda>k. k \<notin> set hid) (map fst env)))
      < length (filter (\<lambda>k. k \<notin> set hid) (map fst env))"
    by (rule length_filter_less) simp
  moreover have "filter (\<lambda>k. k \<noteq> x) (filter (\<lambda>k. k \<notin> set hid) (map fst env))
      = filter (\<lambda>k. k \<notin> set (x # hid)) (map fst env)"
    by (simp add: conj_commute)
  ultimately have "length (filter (\<lambda>k. k \<notin> set (x # hid)) (map fst env))
      < length (filter (\<lambda>k. k \<notin> set hid) (map fst env))"
    by (simp only:)
  then show ?case by simp
qed simp_all

text \<open>What a use of the macro name \<open>n\<close> in the program text is replaced by.\<close>

definition expansion :: "pp_state \<Rightarrow> string \<Rightarrow> token list" where
  "expansion st n = expand [] (macros st) [Ident n]"

text \<open>
  The value of the macro name \<open>x\<close> in the controlling expression of an \<^verbatim>\<open>#if\<close> or
  \<^verbatim>\<open>#elif\<close>, which the preprocessor computes in \<^verbatim>\<open>intmax_t\<close> after macro replacement.
  The model evaluates two cases: a name that is not defined is an identifier left over
  and counts as \<open>0\<close>; a name whose full expansion is one integer constant in the range
  of \<^verbatim>\<open>intmax_t\<close> has the value of the constant. GCC and Clang predefine
  \<^verbatim>\<open>__BYTE_ORDER__\<close> and the \<^verbatim>\<open>__ORDER_..._ENDIAN__\<close> macros so. Every other replacement
  list (a compound expression, an empty list, a string) is \<open>None\<close>: the model does
  not say what the preprocessor computes there, a value or a diagnostic.
\<close>

definition if_value :: "pp_state \<Rightarrow> string \<Rightarrow> int option" where
  "if_value st x =
     (case lookup st x of
        None \<Rightarrow> Some 0
      | Some body \<Rightarrow>
          (case expand [] (macros st) [Ident x] of
             [IntLit n] \<Rightarrow> if 0 \<le> n \<and> n < 2 ^ 63 then Some n else None
           | _ \<Rightarrow> None))"

section \<open>The header, directive by directive\<close>

subsection \<open>Group delimiters (lines 26 to 79)\<close>

definition def_RT_EXT_API_GROUP_BEGIN :: "pp_state \<Rightarrow> pp_state" where
  "def_RT_EXT_API_GROUP_BEGIN st =
     (if \<not> is_defined st ''RT_EXT_API_GROUP_BEGIN'' then
        (if is_defined st ''OMP_NOHOST_BUILD'' then
           define_macro ''RT_EXT_API_GROUP_BEGIN''
             [PragmaOp ''omp begin declare target device_type(nohost)''] st
         else if is_defined st ''OMP_OFFLOAD_BUILD'' then
           define_macro ''RT_EXT_API_GROUP_BEGIN'' [PragmaOp ''omp declare target''] st
         else define_macro ''RT_EXT_API_GROUP_BEGIN'' [] st)
      else st)"

definition def_RT_EXT_API_GROUP_END :: "pp_state \<Rightarrow> pp_state" where
  "def_RT_EXT_API_GROUP_END st =
     (if \<not> is_defined st ''RT_EXT_API_GROUP_END'' then
        (if is_defined st ''OMP_NOHOST_BUILD'' \<or> is_defined st ''OMP_OFFLOAD_BUILD'' then
           define_macro ''RT_EXT_API_GROUP_END'' [PragmaOp ''omp end declare target''] st
         else define_macro ''RT_EXT_API_GROUP_END'' [] st)
      else st)"

definition def_RT_OFFLOAD_API_GROUP :: "pp_state \<Rightarrow> pp_state" where
  "def_RT_OFFLOAD_API_GROUP st =
     define_macro ''RT_OFFLOAD_API_GROUP_END'' [Ident ''RT_EXT_API_GROUP_END'']
       (define_macro ''RT_OFFLOAD_API_GROUP_BEGIN'' [Ident ''RT_EXT_API_GROUP_BEGIN''] st)"

definition def_RT_OFFLOAD_VAR_GROUP :: "pp_state \<Rightarrow> pp_state" where
  "def_RT_OFFLOAD_VAR_GROUP st =
     define_macro ''RT_OFFLOAD_VAR_GROUP_END'' [Ident ''RT_EXT_API_GROUP_END'']
       (define_macro ''RT_OFFLOAD_VAR_GROUP_BEGIN'' [Ident ''RT_EXT_API_GROUP_BEGIN''] st)"

definition def_RT_VAR_GROUP_BEGIN :: "pp_state \<Rightarrow> pp_state" where
  "def_RT_VAR_GROUP_BEGIN st =
     (if \<not> is_defined st ''RT_VAR_GROUP_BEGIN'' then
        define_macro ''RT_VAR_GROUP_BEGIN'' [Ident ''RT_EXT_API_GROUP_BEGIN''] st
      else st)"

definition def_RT_VAR_GROUP_END :: "pp_state \<Rightarrow> pp_state" where
  "def_RT_VAR_GROUP_END st =
     (if \<not> is_defined st ''RT_VAR_GROUP_END'' then
        define_macro ''RT_VAR_GROUP_END'' [Ident ''RT_EXT_API_GROUP_END''] st
      else st)"

subsection \<open>Attributes of single declarations (lines 89 to 122)\<close>

definition def_RT_API_ATTRS :: "pp_state \<Rightarrow> pp_state" where
  "def_RT_API_ATTRS st =
     (if \<not> is_defined st ''RT_API_ATTRS'' then
        (if is_defined st ''__CUDACC__'' \<or> is_defined st ''__CUDA__'' then
           define_macro ''RT_API_ATTRS'' [Ident ''__host__'', Ident ''__device__''] st
         else define_macro ''RT_API_ATTRS'' [] st)
      else st)"

definition def_RT_CONST_VAR_ATTRS :: "pp_state \<Rightarrow> pp_state" where
  "def_RT_CONST_VAR_ATTRS st =
     (if \<not> is_defined st ''RT_CONST_VAR_ATTRS'' then
        (if (is_defined st ''__CUDACC__'' \<or> is_defined st ''__CUDA__'')
            \<and> is_defined st ''__CUDA_ARCH__'' then
           define_macro ''RT_CONST_VAR_ATTRS'' [Ident ''__constant__''] st
         else define_macro ''RT_CONST_VAR_ATTRS'' [] st)
      else st)"

definition def_RT_VAR_ATTRS :: "pp_state \<Rightarrow> pp_state" where
  "def_RT_VAR_ATTRS st =
     (if \<not> is_defined st ''RT_VAR_ATTRS'' then
        (if (is_defined st ''__CUDACC__'' \<or> is_defined st ''__CUDA__'')
            \<and> is_defined st ''__CUDA_ARCH__'' then
           define_macro ''RT_VAR_ATTRS'' [Ident ''__device__''] st
         else define_macro ''RT_VAR_ATTRS'' [] st)
      else st)"

subsection \<open>Device compilation (lines 129 to 157)\<close>

definition def_RT_DEVICE_COMPILATION :: "pp_state \<Rightarrow> pp_state" where
  "def_RT_DEVICE_COMPILATION st =
     (if ((is_defined st ''__CUDACC__'' \<or> is_defined st ''__CUDA__'')
          \<and> is_defined st ''__CUDA_ARCH__'')
         \<or> (is_defined st ''_OPENMP''
             \<and> (is_defined st ''__AMDGCN__'' \<or> is_defined st ''__NVPTX__'')) then
        define_macro ''RT_DEVICE_COMPILATION'' [IntLit 1] st
      else undef_macro ''RT_DEVICE_COMPILATION'' st)"

definition def_RT_DEVICE_AVOID_RECURSION :: "pp_state \<Rightarrow> pp_state" where
  "def_RT_DEVICE_AVOID_RECURSION st =
     (if (is_defined st ''__CUDACC__'' \<or> is_defined st ''__CUDA__'')
         \<and> is_defined st ''__CUDA_ARCH__'' then
        define_macro ''RT_DEVICE_AVOID_RECURSION'' [IntLit 1] st
      else undef_macro ''RT_DEVICE_AVOID_RECURSION'' st)"

definition def_RT_DIAG :: "pp_state \<Rightarrow> pp_state" where
  "def_RT_DIAG st =
     (if is_defined st ''__CUDACC__'' then
        define_macro ''RT_DIAG_DISABLE_CALL_HOST_FROM_DEVICE_WARN''
          [PragmaOp ''nv_diag_suppress 20011'', PragmaOp ''nv_diag_suppress 20014'']
          (define_macro ''RT_DIAG_POP'' [PragmaOp ''nv_diagnostic pop'']
            (define_macro ''RT_DIAG_PUSH'' [PragmaOp ''nv_diagnostic push''] st))
      else
        define_macro ''RT_DIAG_DISABLE_CALL_HOST_FROM_DEVICE_WARN'' []
          (define_macro ''RT_DIAG_POP'' []
            (define_macro ''RT_DIAG_PUSH'' [] st)))"

subsection \<open>Function attributes (lines 165 to 190)\<close>

text \<open>
  \<^verbatim>\<open>#ifndef __has_attribute\<close> / \<^verbatim>\<open>#define __has_attribute(x) 0\<close>: a compiler without the
  feature test gets one that answers 0 for every attribute.
\<close>

definition def_has_attribute :: "pp_state \<Rightarrow> pp_state" where
  "def_has_attribute st =
     (if has_attribute st = None then st\<lparr>has_attribute := Some []\<rparr> else st)"

text \<open>
  The value of \<^verbatim>\<open>__has_attribute(a)\<close> in an \<^verbatim>\<open>#if\<close>. The directives that use it
  come after \<open>def_has_attribute\<close>, where the macro is always defined.
\<close>

definition has_attr :: "pp_state \<Rightarrow> string \<Rightarrow> bool" where
  "has_attr st a = (case has_attribute st of None \<Rightarrow> False | Some as \<Rightarrow> a \<in> set as)"

definition def_RT_NOINLINE_ATTR :: "pp_state \<Rightarrow> pp_state" where
  "def_RT_NOINLINE_ATTR st =
     (if has_attr st ''noinline'' then
        define_macro ''RT_NOINLINE_ATTR''
          [Ident ''__attribute__'', Punct ''('', Punct ''('', Ident ''noinline'',
           Punct '')'', Punct '')''] st
      else define_macro ''RT_NOINLINE_ATTR'' [] st)"

definition def_RT_DEVICE_NOINLINE :: "pp_state \<Rightarrow> pp_state" where
  "def_RT_DEVICE_NOINLINE st =
     (if (is_defined st ''__CUDACC__'' \<or> is_defined st ''__CUDA__'')
         \<and> is_defined st ''__CUDA_ARCH__'' then
        define_macro ''RT_DEVICE_NOINLINE_HOST_INLINE'' []
          (define_macro ''RT_DEVICE_NOINLINE'' [Ident ''RT_NOINLINE_ATTR''] st)
      else
        define_macro ''RT_DEVICE_NOINLINE_HOST_INLINE'' [Ident ''inline'']
          (define_macro ''RT_DEVICE_NOINLINE'' [] st))"

definition def_RT_OPTNONE_ATTR :: "pp_state \<Rightarrow> pp_state" where
  "def_RT_OPTNONE_ATTR st =
     (if has_attr st ''optimize'' then
        define_macro ''RT_OPTNONE_ATTR''
          [Ident ''__attribute__'', Punct ''('', Punct ''('', Ident ''optimize'',
           Punct ''('', StrLit ''O0'', Punct '')'', Punct '')'', Punct '')''] st
      else if has_attr st ''optnone'' then
        define_macro ''RT_OPTNONE_ATTR''
          [Ident ''__attribute__'', Punct ''('', Punct ''('', Ident ''optnone'',
           Punct '')'', Punct '')''] st
      else define_macro ''RT_OPTNONE_ATTR'' [] st)"

subsection \<open>Endianness (lines 193 to 207)\<close>

text \<open>
  \<^verbatim>\<open>defined(__BYTE_ORDER__) && (__BYTE_ORDER__ == ord)\<close> for the macro name \<open>ord\<close>:
  \<open>None\<close> where one of the two names is outside what \<open>if_value\<close> evaluates.
\<close>

definition byte_order_is :: "pp_state \<Rightarrow> string \<Rightarrow> bool option" where
  "byte_order_is st ord =
     (case if_value st ''__BYTE_ORDER__'' of
        None \<Rightarrow> None
      | Some a \<Rightarrow>
          (case if_value st ord of
             None \<Rightarrow> None
           | Some b \<Rightarrow> Some (is_defined st ''__BYTE_ORDER__'' \<and> a = b)))"

text \<open>
  Lines 193 to 207. An \<^verbatim>\<open>#elif\<close> is evaluated only where the groups before it were not
  taken, so the second comparison is reached only when the first is false.
\<close>

definition detect_endianness :: "pp_state \<Rightarrow> pp_state" where
  "detect_endianness st =
     (if \<not> is_defined st ''FLANG_LITTLE_ENDIAN'' \<and> \<not> is_defined st ''FLANG_BIG_ENDIAN'' then
        (if is_defined st ''_MSC_VER'' \<or> is_defined st ''_WIN32'' then
           define_macro ''FLANG_LITTLE_ENDIAN'' [IntLit 1] st
         else
           (case byte_order_is st ''__ORDER_LITTLE_ENDIAN__'' of
              None \<Rightarrow> st\<lparr>unevaluated := True\<rparr>
            | Some is_little \<Rightarrow>
                if is_little then define_macro ''FLANG_LITTLE_ENDIAN'' [IntLit 1] st
                else
                  (case byte_order_is st ''__ORDER_BIG_ENDIAN__'' of
                     None \<Rightarrow> st\<lparr>unevaluated := True\<rparr>
                   | Some is_big \<Rightarrow>
                       if is_big then define_macro ''FLANG_BIG_ENDIAN'' [IntLit 1] st
                       else pp_error ''Unknown or unsupported endianness.'' st)))
      else st)"

subsection \<open>The whole header\<close>

text \<open>Lines 26 to 190, everything before the detection of the endianness.\<close>

definition attrs_part :: "pp_state \<Rightarrow> pp_state" where
  "attrs_part st =
     def_RT_OPTNONE_ATTR (def_RT_DEVICE_NOINLINE (def_RT_NOINLINE_ATTR (def_has_attribute
     (def_RT_DIAG (def_RT_DEVICE_AVOID_RECURSION (def_RT_DEVICE_COMPILATION
     (def_RT_VAR_ATTRS (def_RT_CONST_VAR_ATTRS (def_RT_API_ATTRS
     (def_RT_VAR_GROUP_END (def_RT_VAR_GROUP_BEGIN
     (def_RT_OFFLOAD_VAR_GROUP (def_RT_OFFLOAD_API_GROUP
     (def_RT_EXT_API_GROUP_END (def_RT_EXT_API_GROUP_BEGIN st)))))))))))))))"

text \<open>
  The header between its include guard (lines 16, 17 and 209): a second inclusion
  finds \<^verbatim>\<open>FORTRAN_RUNTIME_API_ATTRS_H_\<close> defined and changes nothing.
\<close>

definition api_attrs_h :: "pp_state \<Rightarrow> pp_state" where
  "api_attrs_h st =
     (if \<not> is_defined st ''FORTRAN_RUNTIME_API_ATTRS_H_'' then
        detect_endianness (attrs_part (define_macro ''FORTRAN_RUNTIME_API_ATTRS_H_'' [] st))
      else st)"

text \<open>
  The state in which line 193 is evaluated when the header is included for the first
  time: the include guard is defined and lines 26 to 190 are processed.
\<close>

definition state_at_line_193 :: "pp_state \<Rightarrow> pp_state" where
  "state_at_line_193 st = attrs_part (define_macro ''FORTRAN_RUNTIME_API_ATTRS_H_'' [] st)"

text \<open>
  The macros the header defines or undefines without a test of an earlier definition,
  and those whose definition it puts under \<^verbatim>\<open>#ifndef\<close> or \<^verbatim>\<open>#if !defined\<close>.
\<close>

definition unguarded_macros :: "string list" where
  "unguarded_macros =
     [''RT_OFFLOAD_API_GROUP_BEGIN'', ''RT_OFFLOAD_API_GROUP_END'',
      ''RT_OFFLOAD_VAR_GROUP_BEGIN'', ''RT_OFFLOAD_VAR_GROUP_END'',
      ''RT_DEVICE_COMPILATION'', ''RT_DEVICE_AVOID_RECURSION'',
      ''RT_DIAG_PUSH'', ''RT_DIAG_POP'', ''RT_DIAG_DISABLE_CALL_HOST_FROM_DEVICE_WARN'',
      ''RT_NOINLINE_ATTR'', ''RT_DEVICE_NOINLINE'', ''RT_DEVICE_NOINLINE_HOST_INLINE'',
      ''RT_OPTNONE_ATTR'']"

definition guarded_macros :: "string list" where
  "guarded_macros =
     [''RT_EXT_API_GROUP_BEGIN'', ''RT_EXT_API_GROUP_END'', ''RT_VAR_GROUP_BEGIN'',
      ''RT_VAR_GROUP_END'', ''RT_API_ATTRS'', ''RT_CONST_VAR_ATTRS'', ''RT_VAR_ATTRS'',
      ''FLANG_LITTLE_ENDIAN'', ''FLANG_BIG_ENDIAN'']"

section \<open>Build configurations\<close>

text \<open>
  Macro tables as the header meets them in the build modes it serves. GCC and Clang
  predefine \<^verbatim>\<open>__ORDER_LITTLE_ENDIAN__\<close> as 1234, \<^verbatim>\<open>__ORDER_BIG_ENDIAN__\<close> as 4321 and
  \<^verbatim>\<open>__BYTE_ORDER__\<close> as the name of one of them; a macro given on the command line
  with \<^verbatim>\<open>-D\<close> has the replacement list \<^verbatim>\<open>1\<close>.
\<close>

definition host_little :: pp_state where
  "host_little =
     \<lparr>macros = [(''__BYTE_ORDER__'', [Ident ''__ORDER_LITTLE_ENDIAN__'']),
                (''__ORDER_LITTLE_ENDIAN__'', [IntLit 1234]),
                (''__ORDER_BIG_ENDIAN__'', [IntLit 4321])],
      has_attribute = Some [''noinline'', ''optimize''],
      errors = [], unevaluated = False\<rparr>"

definition host_big :: pp_state where
  "host_big =
     \<lparr>macros = [(''__BYTE_ORDER__'', [Ident ''__ORDER_BIG_ENDIAN__'']),
                (''__ORDER_LITTLE_ENDIAN__'', [IntLit 1234]),
                (''__ORDER_BIG_ENDIAN__'', [IntLit 4321])],
      has_attribute = Some [''noinline'', ''optimize''],
      errors = [], unevaluated = False\<rparr>"

definition host_windows :: pp_state where
  "host_windows =
     \<lparr>macros = [(''_MSC_VER'', [IntLit 1939]), (''_WIN32'', [IntLit 1])],
      has_attribute = None,
      errors = [], unevaluated = False\<rparr>"

definition host_unknown :: pp_state where
  "host_unknown = \<lparr>macros = [], has_attribute = None, errors = [], unevaluated = False\<rparr>"

definition cuda_host_pass :: pp_state where
  "cuda_host_pass =
     \<lparr>macros = [(''__CUDACC__'', [IntLit 1]),
                (''__BYTE_ORDER__'', [Ident ''__ORDER_LITTLE_ENDIAN__'']),
                (''__ORDER_LITTLE_ENDIAN__'', [IntLit 1234]),
                (''__ORDER_BIG_ENDIAN__'', [IntLit 4321])],
      has_attribute = Some [''noinline'', ''optnone''],
      errors = [], unevaluated = False\<rparr>"

definition cuda_device_pass :: pp_state where
  "cuda_device_pass =
     \<lparr>macros = [(''__CUDACC__'', [IntLit 1]), (''__CUDA_ARCH__'', [IntLit 800]),
                (''__BYTE_ORDER__'', [Ident ''__ORDER_LITTLE_ENDIAN__'']),
                (''__ORDER_LITTLE_ENDIAN__'', [IntLit 1234]),
                (''__ORDER_BIG_ENDIAN__'', [IntLit 4321])],
      has_attribute = Some [''noinline'', ''optnone''],
      errors = [], unevaluated = False\<rparr>"

definition omp_offload_build :: pp_state where
  "omp_offload_build =
     \<lparr>macros = [(''OMP_OFFLOAD_BUILD'', [IntLit 1]), (''_OPENMP'', [IntLit 201811]),
                (''__BYTE_ORDER__'', [Ident ''__ORDER_LITTLE_ENDIAN__'']),
                (''__ORDER_LITTLE_ENDIAN__'', [IntLit 1234]),
                (''__ORDER_BIG_ENDIAN__'', [IntLit 4321])],
      has_attribute = Some [''noinline'', ''optnone''],
      errors = [], unevaluated = False\<rparr>"

definition omp_nohost_build :: pp_state where
  "omp_nohost_build =
     \<lparr>macros = [(''OMP_NOHOST_BUILD'', [IntLit 1]), (''OMP_OFFLOAD_BUILD'', [IntLit 1]),
                (''_OPENMP'', [IntLit 201811]), (''__AMDGCN__'', [IntLit 1]),
                (''__BYTE_ORDER__'', [Ident ''__ORDER_LITTLE_ENDIAN__'']),
                (''__ORDER_LITTLE_ENDIAN__'', [IntLit 1234]),
                (''__ORDER_BIG_ENDIAN__'', [IntLit 4321])],
      has_attribute = Some [''noinline'', ''optnone''],
      errors = [], unevaluated = False\<rparr>"

text \<open>Configurations in which the including file has defined macros of the header itself.\<close>

definition both_flags_preset :: pp_state where
  "both_flags_preset =
     \<lparr>macros = [(''FLANG_LITTLE_ENDIAN'', [IntLit 1]), (''FLANG_BIG_ENDIAN'', [IntLit 1])],
      has_attribute = None,
      errors = [], unevaluated = False\<rparr>"

definition device_compilation_preset :: pp_state where
  "device_compilation_preset =
     \<lparr>macros = [(''RT_DEVICE_COMPILATION'', [IntLit 1]),
                (''__BYTE_ORDER__'', [Ident ''__ORDER_LITTLE_ENDIAN__'']),
                (''__ORDER_LITTLE_ENDIAN__'', [IntLit 1234]),
                (''__ORDER_BIG_ENDIAN__'', [IntLit 4321])],
      has_attribute = Some [''noinline'', ''optimize''],
      errors = [], unevaluated = False\<rparr>"

definition api_attrs_preset :: pp_state where
  "api_attrs_preset =
     \<lparr>macros = [(''RT_API_ATTRS'', [Ident ''__device__'']), (''__CUDACC__'', [IntLit 1]),
                (''__BYTE_ORDER__'', [Ident ''__ORDER_LITTLE_ENDIAN__'']),
                (''__ORDER_LITTLE_ENDIAN__'', [IntLit 1234]),
                (''__ORDER_BIG_ENDIAN__'', [IntLit 4321])],
      has_attribute = Some [''noinline'', ''optnone''],
      errors = [], unevaluated = False\<rparr>"

section \<open>Reading the macro table\<close>

lemma lookup_define_macro:
  "lookup (define_macro n body st) m = (if m = n then Some body else lookup st m)"
  by (simp add: lookup_def define_macro_def update_conv')

lemma lookup_undef_macro:
  "lookup (undef_macro n st) m = (if m = n then None else lookup st m)"
  by (simp add: lookup_def undef_macro_def delete_conv')

lemma map_of_macros: "map_of (macros st) n = lookup st n"
  by (simp add: lookup_def)

lemma lookup_literal:
  "lookup \<lparr>macros = ms, has_attribute = h, errors = e, unevaluated = u\<rparr> n = map_of ms n"
  by (simp add: lookup_def)

lemma lookup_unevaluated: "lookup (st\<lparr>unevaluated := u\<rparr>) m = lookup st m"
  by (simp add: lookup_def)

lemma lookup_pp_error: "lookup (pp_error msg st) m = lookup st m"
  by (simp add: lookup_def pp_error_def)

lemma errors_pp_error: "errors (pp_error msg st) = errors st @ [msg]"
  by (simp add: pp_error_def)

lemma errors_define_macro: "errors (define_macro n body st) = errors st"
  by (simp add: define_macro_def)

lemma errors_undef_macro: "errors (undef_macro n st) = errors st"
  by (simp add: undef_macro_def)

lemma has_attribute_define_macro: "has_attribute (define_macro n body st) = has_attribute st"
  by (simp add: define_macro_def)

lemma has_attribute_undef_macro: "has_attribute (undef_macro n st) = has_attribute st"
  by (simp add: undef_macro_def)

lemmas pp_simps = lookup_define_macro lookup_undef_macro lookup_pp_error errors_define_macro
  errors_undef_macro has_attribute_define_macro has_attribute_undef_macro is_defined_def

lemma frame_EXT_BEGIN:
  "m \<noteq> ''RT_EXT_API_GROUP_BEGIN'' \<Longrightarrow> lookup (def_RT_EXT_API_GROUP_BEGIN st) m = lookup st m"
  by (simp add: def_RT_EXT_API_GROUP_BEGIN_def pp_simps)

lemma frame_EXT_END:
  "m \<noteq> ''RT_EXT_API_GROUP_END'' \<Longrightarrow> lookup (def_RT_EXT_API_GROUP_END st) m = lookup st m"
  by (simp add: def_RT_EXT_API_GROUP_END_def pp_simps)

lemma frame_OFFLOAD_API:
  "m \<noteq> ''RT_OFFLOAD_API_GROUP_BEGIN'' \<Longrightarrow> m \<noteq> ''RT_OFFLOAD_API_GROUP_END'' \<Longrightarrow>
   lookup (def_RT_OFFLOAD_API_GROUP st) m = lookup st m"
  by (simp add: def_RT_OFFLOAD_API_GROUP_def pp_simps)

lemma frame_OFFLOAD_VAR:
  "m \<noteq> ''RT_OFFLOAD_VAR_GROUP_BEGIN'' \<Longrightarrow> m \<noteq> ''RT_OFFLOAD_VAR_GROUP_END'' \<Longrightarrow>
   lookup (def_RT_OFFLOAD_VAR_GROUP st) m = lookup st m"
  by (simp add: def_RT_OFFLOAD_VAR_GROUP_def pp_simps)

lemma frame_VAR_BEGIN:
  "m \<noteq> ''RT_VAR_GROUP_BEGIN'' \<Longrightarrow> lookup (def_RT_VAR_GROUP_BEGIN st) m = lookup st m"
  by (simp add: def_RT_VAR_GROUP_BEGIN_def pp_simps)

lemma frame_VAR_END:
  "m \<noteq> ''RT_VAR_GROUP_END'' \<Longrightarrow> lookup (def_RT_VAR_GROUP_END st) m = lookup st m"
  by (simp add: def_RT_VAR_GROUP_END_def pp_simps)

lemma frame_API_ATTRS:
  "m \<noteq> ''RT_API_ATTRS'' \<Longrightarrow> lookup (def_RT_API_ATTRS st) m = lookup st m"
  by (simp add: def_RT_API_ATTRS_def pp_simps)

lemma frame_CONST_VAR_ATTRS:
  "m \<noteq> ''RT_CONST_VAR_ATTRS'' \<Longrightarrow> lookup (def_RT_CONST_VAR_ATTRS st) m = lookup st m"
  by (simp add: def_RT_CONST_VAR_ATTRS_def pp_simps)

lemma frame_VAR_ATTRS:
  "m \<noteq> ''RT_VAR_ATTRS'' \<Longrightarrow> lookup (def_RT_VAR_ATTRS st) m = lookup st m"
  by (simp add: def_RT_VAR_ATTRS_def pp_simps)

lemma frame_DEVICE_COMPILATION:
  "m \<noteq> ''RT_DEVICE_COMPILATION'' \<Longrightarrow> lookup (def_RT_DEVICE_COMPILATION st) m = lookup st m"
  by (simp add: def_RT_DEVICE_COMPILATION_def pp_simps)

lemma frame_DEVICE_AVOID_RECURSION:
  "m \<noteq> ''RT_DEVICE_AVOID_RECURSION'' \<Longrightarrow>
   lookup (def_RT_DEVICE_AVOID_RECURSION st) m = lookup st m"
  by (simp add: def_RT_DEVICE_AVOID_RECURSION_def pp_simps)

lemma frame_DIAG:
  "m \<noteq> ''RT_DIAG_PUSH'' \<Longrightarrow> m \<noteq> ''RT_DIAG_POP'' \<Longrightarrow>
   m \<noteq> ''RT_DIAG_DISABLE_CALL_HOST_FROM_DEVICE_WARN'' \<Longrightarrow>
   lookup (def_RT_DIAG st) m = lookup st m"
  by (simp add: def_RT_DIAG_def pp_simps)

lemma frame_has_attribute: "lookup (def_has_attribute st) m = lookup st m"
  by (simp add: def_has_attribute_def lookup_def)

lemma frame_NOINLINE_ATTR:
  "m \<noteq> ''RT_NOINLINE_ATTR'' \<Longrightarrow> lookup (def_RT_NOINLINE_ATTR st) m = lookup st m"
  by (simp add: def_RT_NOINLINE_ATTR_def pp_simps)

lemma frame_DEVICE_NOINLINE:
  "m \<noteq> ''RT_DEVICE_NOINLINE'' \<Longrightarrow> m \<noteq> ''RT_DEVICE_NOINLINE_HOST_INLINE'' \<Longrightarrow>
   lookup (def_RT_DEVICE_NOINLINE st) m = lookup st m"
  by (simp add: def_RT_DEVICE_NOINLINE_def pp_simps)

lemma frame_OPTNONE_ATTR:
  "m \<noteq> ''RT_OPTNONE_ATTR'' \<Longrightarrow> lookup (def_RT_OPTNONE_ATTR st) m = lookup st m"
  by (simp add: def_RT_OPTNONE_ATTR_def pp_simps)

lemma frame_detect_endianness:
  "m \<noteq> ''FLANG_LITTLE_ENDIAN'' \<Longrightarrow> m \<noteq> ''FLANG_BIG_ENDIAN'' \<Longrightarrow>
   lookup (detect_endianness st) m = lookup st m"
  by (simp add: detect_endianness_def pp_simps lookup_unevaluated split: option.splits)

lemmas frames = frame_EXT_BEGIN frame_EXT_END frame_OFFLOAD_API frame_OFFLOAD_VAR
  frame_VAR_BEGIN frame_VAR_END frame_API_ATTRS frame_CONST_VAR_ATTRS frame_VAR_ATTRS
  frame_DEVICE_COMPILATION frame_DEVICE_AVOID_RECURSION frame_DIAG frame_has_attribute
  frame_NOINLINE_ATTR frame_DEVICE_NOINLINE frame_OPTNONE_ATTR frame_detect_endianness


lemma errors_steps:
  "errors (def_RT_EXT_API_GROUP_BEGIN st) = errors st"
  "errors (def_RT_EXT_API_GROUP_END st) = errors st"
  "errors (def_RT_OFFLOAD_API_GROUP st) = errors st"
  "errors (def_RT_OFFLOAD_VAR_GROUP st) = errors st"
  "errors (def_RT_VAR_GROUP_BEGIN st) = errors st"
  "errors (def_RT_VAR_GROUP_END st) = errors st"
  "errors (def_RT_API_ATTRS st) = errors st"
  "errors (def_RT_CONST_VAR_ATTRS st) = errors st"
  "errors (def_RT_VAR_ATTRS st) = errors st"
  "errors (def_RT_DEVICE_COMPILATION st) = errors st"
  "errors (def_RT_DEVICE_AVOID_RECURSION st) = errors st"
  "errors (def_RT_DIAG st) = errors st"
  "errors (def_has_attribute st) = errors st"
  "errors (def_RT_NOINLINE_ATTR st) = errors st"
  "errors (def_RT_DEVICE_NOINLINE st) = errors st"
  "errors (def_RT_OPTNONE_ATTR st) = errors st"
  by (simp_all add: def_RT_EXT_API_GROUP_BEGIN_def def_RT_EXT_API_GROUP_END_def
      def_RT_OFFLOAD_API_GROUP_def def_RT_OFFLOAD_VAR_GROUP_def def_RT_VAR_GROUP_BEGIN_def
      def_RT_VAR_GROUP_END_def def_RT_API_ATTRS_def def_RT_CONST_VAR_ATTRS_def
      def_RT_VAR_ATTRS_def def_RT_DEVICE_COMPILATION_def def_RT_DEVICE_AVOID_RECURSION_def
      def_RT_DIAG_def def_has_attribute_def def_RT_NOINLINE_ATTR_def def_RT_DEVICE_NOINLINE_def
      def_RT_OPTNONE_ATTR_def errors_define_macro errors_undef_macro)

lemma errors_attrs_part: "errors (attrs_part st) = errors st"
  by (simp add: attrs_part_def errors_steps)


lemma has_attribute_steps:
  "has_attribute (def_RT_EXT_API_GROUP_BEGIN st) = has_attribute st"
  "has_attribute (def_RT_EXT_API_GROUP_END st) = has_attribute st"
  "has_attribute (def_RT_OFFLOAD_API_GROUP st) = has_attribute st"
  "has_attribute (def_RT_OFFLOAD_VAR_GROUP st) = has_attribute st"
  "has_attribute (def_RT_VAR_GROUP_BEGIN st) = has_attribute st"
  "has_attribute (def_RT_VAR_GROUP_END st) = has_attribute st"
  "has_attribute (def_RT_API_ATTRS st) = has_attribute st"
  "has_attribute (def_RT_CONST_VAR_ATTRS st) = has_attribute st"
  "has_attribute (def_RT_VAR_ATTRS st) = has_attribute st"
  "has_attribute (def_RT_DEVICE_COMPILATION st) = has_attribute st"
  "has_attribute (def_RT_DEVICE_AVOID_RECURSION st) = has_attribute st"
  "has_attribute (def_RT_DIAG st) = has_attribute st"
  by (simp_all add: def_RT_EXT_API_GROUP_BEGIN_def def_RT_EXT_API_GROUP_END_def
      def_RT_OFFLOAD_API_GROUP_def def_RT_OFFLOAD_VAR_GROUP_def def_RT_VAR_GROUP_BEGIN_def
      def_RT_VAR_GROUP_END_def def_RT_API_ATTRS_def def_RT_CONST_VAR_ATTRS_def
      def_RT_VAR_ATTRS_def def_RT_DEVICE_COMPILATION_def def_RT_DEVICE_AVOID_RECURSION_def
      def_RT_DIAG_def has_attribute_define_macro has_attribute_undef_macro)

lemma has_attr_def_has_attribute: "has_attr (def_has_attribute st) a = has_attr st a"
  by (simp add: has_attr_def def_has_attribute_def split: option.splits)

subsection \<open>The state at line 193\<close>

lemma lookup_state_at_line_193:
  "lookup (state_at_line_193 st) ''FLANG_LITTLE_ENDIAN'' = lookup st ''FLANG_LITTLE_ENDIAN''"
  "lookup (state_at_line_193 st) ''FLANG_BIG_ENDIAN'' = lookup st ''FLANG_BIG_ENDIAN''"
  "lookup (state_at_line_193 st) ''_MSC_VER'' = lookup st ''_MSC_VER''"
  "lookup (state_at_line_193 st) ''_WIN32'' = lookup st ''_WIN32''"
  by (simp_all add: state_at_line_193_def attrs_part_def frames lookup_define_macro)

lemma lookup_byte_order_at_line_193:
  "lookup (state_at_line_193 st) ''__BYTE_ORDER__'' = lookup st ''__BYTE_ORDER__''"
  "lookup (state_at_line_193 st) ''__ORDER_LITTLE_ENDIAN__'' = lookup st ''__ORDER_LITTLE_ENDIAN__''"
  "lookup (state_at_line_193 st) ''__ORDER_BIG_ENDIAN__'' = lookup st ''__ORDER_BIG_ENDIAN__''"
  by (simp_all add: state_at_line_193_def attrs_part_def frames lookup_define_macro)

lemma errors_state_at_line_193: "errors (state_at_line_193 st) = errors st"
  by (simp add: state_at_line_193_def errors_attrs_part errors_define_macro)

lemma unevaluated_steps:
  "unevaluated (define_macro n body st) = unevaluated st"
  "unevaluated (undef_macro n st) = unevaluated st"
  "unevaluated (pp_error msg st) = unevaluated st"
  "unevaluated (def_RT_EXT_API_GROUP_BEGIN st) = unevaluated st"
  "unevaluated (def_RT_EXT_API_GROUP_END st) = unevaluated st"
  "unevaluated (def_RT_OFFLOAD_API_GROUP st) = unevaluated st"
  "unevaluated (def_RT_OFFLOAD_VAR_GROUP st) = unevaluated st"
  "unevaluated (def_RT_VAR_GROUP_BEGIN st) = unevaluated st"
  "unevaluated (def_RT_VAR_GROUP_END st) = unevaluated st"
  "unevaluated (def_RT_API_ATTRS st) = unevaluated st"
  "unevaluated (def_RT_CONST_VAR_ATTRS st) = unevaluated st"
  "unevaluated (def_RT_VAR_ATTRS st) = unevaluated st"
  "unevaluated (def_RT_DEVICE_COMPILATION st) = unevaluated st"
  "unevaluated (def_RT_DEVICE_AVOID_RECURSION st) = unevaluated st"
  "unevaluated (def_RT_DIAG st) = unevaluated st"
  "unevaluated (def_has_attribute st) = unevaluated st"
  "unevaluated (def_RT_NOINLINE_ATTR st) = unevaluated st"
  "unevaluated (def_RT_DEVICE_NOINLINE st) = unevaluated st"
  "unevaluated (def_RT_OPTNONE_ATTR st) = unevaluated st"
  by (simp_all add: define_macro_def undef_macro_def pp_error_def
      def_RT_EXT_API_GROUP_BEGIN_def def_RT_EXT_API_GROUP_END_def
      def_RT_OFFLOAD_API_GROUP_def def_RT_OFFLOAD_VAR_GROUP_def def_RT_VAR_GROUP_BEGIN_def
      def_RT_VAR_GROUP_END_def def_RT_API_ATTRS_def def_RT_CONST_VAR_ATTRS_def
      def_RT_VAR_ATTRS_def def_RT_DEVICE_COMPILATION_def def_RT_DEVICE_AVOID_RECURSION_def
      def_RT_DIAG_def def_has_attribute_def def_RT_NOINLINE_ATTR_def def_RT_DEVICE_NOINLINE_def
      def_RT_OPTNONE_ATTR_def)

lemma unevaluated_state_at_line_193: "unevaluated (state_at_line_193 st) = unevaluated st"
  by (simp add: state_at_line_193_def attrs_part_def unevaluated_steps)

text \<open>
  Where the three byte-order macros have values, the model evaluates the whole header:
  the mark is not set.
\<close>

lemma header_evaluated:
  assumes "if_value (state_at_line_193 st) ''__BYTE_ORDER__'' = Some bo"
    and "if_value (state_at_line_193 st) ''__ORDER_LITTLE_ENDIAN__'' = Some little"
    and "if_value (state_at_line_193 st) ''__ORDER_BIG_ENDIAN__'' = Some big"
  shows "unevaluated (api_attrs_h st) = unevaluated st"
  using assms
  by (simp add: api_attrs_h_def state_at_line_193_def [symmetric] detect_endianness_def
      byte_order_is_def unevaluated_steps unevaluated_state_at_line_193)

lemma api_attrs_h_first:
  "\<not> is_defined st ''FORTRAN_RUNTIME_API_ATTRS_H_'' \<Longrightarrow>
   api_attrs_h st = detect_endianness (state_at_line_193 st)"
  by (simp add: api_attrs_h_def state_at_line_193_def)

subsection \<open>What each macro is after the first inclusion\<close>

lemma final_EXT_BEGIN:
  assumes "\<not> is_defined st ''FORTRAN_RUNTIME_API_ATTRS_H_''"
    and "\<not> is_defined st ''RT_EXT_API_GROUP_BEGIN''"
  shows "lookup (api_attrs_h st) ''RT_EXT_API_GROUP_BEGIN'' =
     Some (if is_defined st ''OMP_NOHOST_BUILD''
           then [PragmaOp ''omp begin declare target device_type(nohost)'']
           else if is_defined st ''OMP_OFFLOAD_BUILD'' then [PragmaOp ''omp declare target'']
           else [])"
  using assms
  by (simp add: api_attrs_h_def attrs_part_def frames def_RT_EXT_API_GROUP_BEGIN_def
      is_defined_def lookup_define_macro)

lemma final_EXT_END:
  assumes "\<not> is_defined st ''FORTRAN_RUNTIME_API_ATTRS_H_''"
    and "\<not> is_defined st ''RT_EXT_API_GROUP_END''"
  shows "lookup (api_attrs_h st) ''RT_EXT_API_GROUP_END'' =
     Some (if is_defined st ''OMP_NOHOST_BUILD'' \<or> is_defined st ''OMP_OFFLOAD_BUILD''
           then [PragmaOp ''omp end declare target''] else [])"
  using assms
  by (simp add: api_attrs_h_def attrs_part_def frames def_RT_EXT_API_GROUP_END_def
      is_defined_def lookup_define_macro)

lemma final_OFFLOAD:
  assumes "\<not> is_defined st ''FORTRAN_RUNTIME_API_ATTRS_H_''"
  shows "lookup (api_attrs_h st) ''RT_OFFLOAD_API_GROUP_BEGIN'' = Some [Ident ''RT_EXT_API_GROUP_BEGIN'']"
    and "lookup (api_attrs_h st) ''RT_OFFLOAD_API_GROUP_END'' = Some [Ident ''RT_EXT_API_GROUP_END'']"
    and "lookup (api_attrs_h st) ''RT_OFFLOAD_VAR_GROUP_BEGIN'' = Some [Ident ''RT_EXT_API_GROUP_BEGIN'']"
    and "lookup (api_attrs_h st) ''RT_OFFLOAD_VAR_GROUP_END'' = Some [Ident ''RT_EXT_API_GROUP_END'']"
  using assms
  by (simp_all add: api_attrs_h_def attrs_part_def frames def_RT_OFFLOAD_API_GROUP_def
      def_RT_OFFLOAD_VAR_GROUP_def lookup_define_macro)

lemma final_VAR_GROUP:
  assumes "\<not> is_defined st ''FORTRAN_RUNTIME_API_ATTRS_H_''"
  shows "\<not> is_defined st ''RT_VAR_GROUP_BEGIN'' \<Longrightarrow>
      lookup (api_attrs_h st) ''RT_VAR_GROUP_BEGIN'' = Some [Ident ''RT_EXT_API_GROUP_BEGIN'']"
    and "\<not> is_defined st ''RT_VAR_GROUP_END'' \<Longrightarrow>
      lookup (api_attrs_h st) ''RT_VAR_GROUP_END'' = Some [Ident ''RT_EXT_API_GROUP_END'']"
  using assms
  by (simp_all add: api_attrs_h_def attrs_part_def frames def_RT_VAR_GROUP_BEGIN_def
      def_RT_VAR_GROUP_END_def is_defined_def lookup_define_macro)

lemma final_API_ATTRS:
  assumes "\<not> is_defined st ''FORTRAN_RUNTIME_API_ATTRS_H_''"
    and "\<not> is_defined st ''RT_API_ATTRS''"
  shows "lookup (api_attrs_h st) ''RT_API_ATTRS'' =
     Some (if is_defined st ''__CUDACC__'' \<or> is_defined st ''__CUDA__''
           then [Ident ''__host__'', Ident ''__device__''] else [])"
  using assms
  by (simp add: api_attrs_h_def attrs_part_def frames def_RT_API_ATTRS_def
      is_defined_def lookup_define_macro)

lemma final_CONST_VAR_ATTRS:
  assumes "\<not> is_defined st ''FORTRAN_RUNTIME_API_ATTRS_H_''"
    and "\<not> is_defined st ''RT_CONST_VAR_ATTRS''"
  shows "lookup (api_attrs_h st) ''RT_CONST_VAR_ATTRS'' =
     Some (if (is_defined st ''__CUDACC__'' \<or> is_defined st ''__CUDA__'')
              \<and> is_defined st ''__CUDA_ARCH__''
           then [Ident ''__constant__''] else [])"
  using assms
  by (simp add: api_attrs_h_def attrs_part_def frames def_RT_CONST_VAR_ATTRS_def
      is_defined_def lookup_define_macro)

lemma final_VAR_ATTRS:
  assumes "\<not> is_defined st ''FORTRAN_RUNTIME_API_ATTRS_H_''"
    and "\<not> is_defined st ''RT_VAR_ATTRS''"
  shows "lookup (api_attrs_h st) ''RT_VAR_ATTRS'' =
     Some (if (is_defined st ''__CUDACC__'' \<or> is_defined st ''__CUDA__'')
              \<and> is_defined st ''__CUDA_ARCH__''
           then [Ident ''__device__''] else [])"
  using assms
  by (simp add: api_attrs_h_def attrs_part_def frames def_RT_VAR_ATTRS_def
      is_defined_def lookup_define_macro)

lemma final_DEVICE_COMPILATION:
  assumes "\<not> is_defined st ''FORTRAN_RUNTIME_API_ATTRS_H_''"
  shows "lookup (api_attrs_h st) ''RT_DEVICE_COMPILATION'' =
     (if ((is_defined st ''__CUDACC__'' \<or> is_defined st ''__CUDA__'')
          \<and> is_defined st ''__CUDA_ARCH__'')
         \<or> (is_defined st ''_OPENMP''
             \<and> (is_defined st ''__AMDGCN__'' \<or> is_defined st ''__NVPTX__''))
      then Some [IntLit 1] else None)"
  using assms
  by (simp add: api_attrs_h_def attrs_part_def frames def_RT_DEVICE_COMPILATION_def
      is_defined_def lookup_define_macro lookup_undef_macro)

lemma final_DEVICE_AVOID_RECURSION:
  assumes "\<not> is_defined st ''FORTRAN_RUNTIME_API_ATTRS_H_''"
  shows "lookup (api_attrs_h st) ''RT_DEVICE_AVOID_RECURSION'' =
     (if (is_defined st ''__CUDACC__'' \<or> is_defined st ''__CUDA__'')
         \<and> is_defined st ''__CUDA_ARCH__''
      then Some [IntLit 1] else None)"
  using assms
  by (simp add: api_attrs_h_def attrs_part_def frames def_RT_DEVICE_AVOID_RECURSION_def
      is_defined_def lookup_define_macro lookup_undef_macro)

lemma final_NOINLINE_ATTR:
  assumes "\<not> is_defined st ''FORTRAN_RUNTIME_API_ATTRS_H_''"
  shows "lookup (api_attrs_h st) ''RT_NOINLINE_ATTR'' =
     Some (if has_attr st ''noinline''
           then [Ident ''__attribute__'', Punct ''('', Punct ''('', Ident ''noinline'',
                 Punct '')'', Punct '')'']
           else [])"
proof -
  have "has_attr (def_has_attribute (def_RT_DIAG (def_RT_DEVICE_AVOID_RECURSION
      (def_RT_DEVICE_COMPILATION (def_RT_VAR_ATTRS (def_RT_CONST_VAR_ATTRS (def_RT_API_ATTRS
      (def_RT_VAR_GROUP_END (def_RT_VAR_GROUP_BEGIN (def_RT_OFFLOAD_VAR_GROUP
      (def_RT_OFFLOAD_API_GROUP (def_RT_EXT_API_GROUP_END (def_RT_EXT_API_GROUP_BEGIN
      (define_macro ''FORTRAN_RUNTIME_API_ATTRS_H_'' [] st)))))))))))))) ''noinline''
    = has_attr st ''noinline''"
    by (simp add: has_attr_def_has_attribute)
       (simp add: has_attr_def has_attribute_steps has_attribute_define_macro)
  with assms show ?thesis
    by (simp add: api_attrs_h_def attrs_part_def frames def_RT_NOINLINE_ATTR_def
        lookup_define_macro)
qed

lemma final_DEVICE_NOINLINE:
  assumes "\<not> is_defined st ''FORTRAN_RUNTIME_API_ATTRS_H_''"
  shows "lookup (api_attrs_h st) ''RT_DEVICE_NOINLINE'' =
     Some (if (is_defined st ''__CUDACC__'' \<or> is_defined st ''__CUDA__'')
              \<and> is_defined st ''__CUDA_ARCH__''
           then [Ident ''RT_NOINLINE_ATTR''] else [])"
    and "lookup (api_attrs_h st) ''RT_DEVICE_NOINLINE_HOST_INLINE'' =
     Some (if (is_defined st ''__CUDACC__'' \<or> is_defined st ''__CUDA__'')
              \<and> is_defined st ''__CUDA_ARCH__''
           then [] else [Ident ''inline''])"
  using assms
  by (simp_all add: api_attrs_h_def attrs_part_def frames def_RT_DEVICE_NOINLINE_def
      is_defined_def lookup_define_macro)

lemma final_DIAG:
  assumes "\<not> is_defined st ''FORTRAN_RUNTIME_API_ATTRS_H_''"
  shows "lookup (api_attrs_h st) ''RT_DIAG_PUSH'' =
     Some (if is_defined st ''__CUDACC__'' then [PragmaOp ''nv_diagnostic push''] else [])"
    and "lookup (api_attrs_h st) ''RT_DIAG_POP'' =
     Some (if is_defined st ''__CUDACC__'' then [PragmaOp ''nv_diagnostic pop''] else [])"
    and "lookup (api_attrs_h st) ''RT_DIAG_DISABLE_CALL_HOST_FROM_DEVICE_WARN'' =
     Some (if is_defined st ''__CUDACC__''
           then [PragmaOp ''nv_diag_suppress 20011'', PragmaOp ''nv_diag_suppress 20014'']
           else [])"
  using assms
  by (simp_all add: api_attrs_h_def attrs_part_def frames def_RT_DIAG_def
      is_defined_def lookup_define_macro)

lemma has_attr_at_OPTNONE:
  "has_attr (def_RT_DEVICE_NOINLINE (def_RT_NOINLINE_ATTR (def_has_attribute (def_RT_DIAG
      (def_RT_DEVICE_AVOID_RECURSION (def_RT_DEVICE_COMPILATION (def_RT_VAR_ATTRS
      (def_RT_CONST_VAR_ATTRS (def_RT_API_ATTRS (def_RT_VAR_GROUP_END (def_RT_VAR_GROUP_BEGIN
      (def_RT_OFFLOAD_VAR_GROUP (def_RT_OFFLOAD_API_GROUP (def_RT_EXT_API_GROUP_END
      (def_RT_EXT_API_GROUP_BEGIN
      (define_macro ''FORTRAN_RUNTIME_API_ATTRS_H_'' [] st)))))))))))))))) a
   = has_attr st a"
proof -
  have "has_attr (def_RT_DEVICE_NOINLINE (def_RT_NOINLINE_ATTR s)) a = has_attr s a" for s
    by (simp add: has_attr_def def_RT_DEVICE_NOINLINE_def def_RT_NOINLINE_ATTR_def
        has_attribute_define_macro)
  then show ?thesis
    by (simp add: has_attr_def_has_attribute)
       (simp add: has_attr_def has_attribute_steps has_attribute_define_macro)
qed

lemma final_OPTNONE_ATTR:
  assumes "\<not> is_defined st ''FORTRAN_RUNTIME_API_ATTRS_H_''"
  shows "lookup (api_attrs_h st) ''RT_OPTNONE_ATTR'' =
     Some (if has_attr st ''optimize''
           then [Ident ''__attribute__'', Punct ''('', Punct ''('', Ident ''optimize'',
                 Punct ''('', StrLit ''O0'', Punct '')'', Punct '')'', Punct '')'']
           else if has_attr st ''optnone''
           then [Ident ''__attribute__'', Punct ''('', Punct ''('', Ident ''optnone'',
                 Punct '')'', Punct '')'']
           else [])"
  using assms
  by (simp add: api_attrs_h_def attrs_part_def frames def_RT_OPTNONE_ATTR_def
      has_attr_at_OPTNONE lookup_define_macro)

subsection \<open>Macros the header defines without a test\<close>

lemma undef_other:
  "m \<noteq> n \<Longrightarrow> is_defined (undef_macro n st) m = is_defined st m"
  "has_attr (undef_macro n st) a = has_attr st a"
  by (simp_all add: is_defined_def lookup_undef_macro has_attr_def has_attribute_undef_macro)

lemma overwritten_OFFLOAD:
  assumes "\<not> is_defined st ''FORTRAN_RUNTIME_API_ATTRS_H_''"
  shows "lookup (api_attrs_h st) ''RT_OFFLOAD_API_GROUP_BEGIN''
      = lookup (api_attrs_h (undef_macro ''RT_OFFLOAD_API_GROUP_BEGIN'' st)) ''RT_OFFLOAD_API_GROUP_BEGIN''"
    and "lookup (api_attrs_h st) ''RT_OFFLOAD_API_GROUP_END''
      = lookup (api_attrs_h (undef_macro ''RT_OFFLOAD_API_GROUP_END'' st)) ''RT_OFFLOAD_API_GROUP_END''"
    and "lookup (api_attrs_h st) ''RT_OFFLOAD_VAR_GROUP_BEGIN''
      = lookup (api_attrs_h (undef_macro ''RT_OFFLOAD_VAR_GROUP_BEGIN'' st)) ''RT_OFFLOAD_VAR_GROUP_BEGIN''"
    and "lookup (api_attrs_h st) ''RT_OFFLOAD_VAR_GROUP_END''
      = lookup (api_attrs_h (undef_macro ''RT_OFFLOAD_VAR_GROUP_END'' st)) ''RT_OFFLOAD_VAR_GROUP_END''"
  using assms by (simp_all add: final_OFFLOAD undef_other)

lemma overwritten_DEVICE:
  assumes "\<not> is_defined st ''FORTRAN_RUNTIME_API_ATTRS_H_''"
  shows "lookup (api_attrs_h st) ''RT_DEVICE_COMPILATION''
      = lookup (api_attrs_h (undef_macro ''RT_DEVICE_COMPILATION'' st)) ''RT_DEVICE_COMPILATION''"
    and "lookup (api_attrs_h st) ''RT_DEVICE_AVOID_RECURSION''
      = lookup (api_attrs_h (undef_macro ''RT_DEVICE_AVOID_RECURSION'' st)) ''RT_DEVICE_AVOID_RECURSION''"
  using assms
  by (simp_all add: final_DEVICE_COMPILATION final_DEVICE_AVOID_RECURSION undef_other)

lemma overwritten_DIAG:
  assumes "\<not> is_defined st ''FORTRAN_RUNTIME_API_ATTRS_H_''"
  shows "lookup (api_attrs_h st) ''RT_DIAG_PUSH''
      = lookup (api_attrs_h (undef_macro ''RT_DIAG_PUSH'' st)) ''RT_DIAG_PUSH''"
    and "lookup (api_attrs_h st) ''RT_DIAG_POP''
      = lookup (api_attrs_h (undef_macro ''RT_DIAG_POP'' st)) ''RT_DIAG_POP''"
    and "lookup (api_attrs_h st) ''RT_DIAG_DISABLE_CALL_HOST_FROM_DEVICE_WARN''
      = lookup (api_attrs_h (undef_macro ''RT_DIAG_DISABLE_CALL_HOST_FROM_DEVICE_WARN'' st))
          ''RT_DIAG_DISABLE_CALL_HOST_FROM_DEVICE_WARN''"
  using assms by (simp_all add: final_DIAG undef_other)

lemma overwritten_ATTR:
  assumes "\<not> is_defined st ''FORTRAN_RUNTIME_API_ATTRS_H_''"
  shows "lookup (api_attrs_h st) ''RT_NOINLINE_ATTR''
      = lookup (api_attrs_h (undef_macro ''RT_NOINLINE_ATTR'' st)) ''RT_NOINLINE_ATTR''"
    and "lookup (api_attrs_h st) ''RT_DEVICE_NOINLINE''
      = lookup (api_attrs_h (undef_macro ''RT_DEVICE_NOINLINE'' st)) ''RT_DEVICE_NOINLINE''"
    and "lookup (api_attrs_h st) ''RT_DEVICE_NOINLINE_HOST_INLINE''
      = lookup (api_attrs_h (undef_macro ''RT_DEVICE_NOINLINE_HOST_INLINE'' st))
          ''RT_DEVICE_NOINLINE_HOST_INLINE''"
    and "lookup (api_attrs_h st) ''RT_OPTNONE_ATTR''
      = lookup (api_attrs_h (undef_macro ''RT_OPTNONE_ATTR'' st)) ''RT_OPTNONE_ATTR''"
  using assms
  by (simp_all add: final_NOINLINE_ATTR final_DEVICE_NOINLINE final_OPTNONE_ATTR undef_other)

lemmas overwritten = overwritten_OFFLOAD overwritten_DEVICE overwritten_DIAG overwritten_ATTR

subsection \<open>Expansion\<close>

lemma expansion_of_defined:
  "lookup st n = Some body \<Longrightarrow> expansion st n = expand [n] (macros st) body"
  by (simp add: expansion_def lookup_def)

lemma expansion_alias:
  assumes "lookup st a = Some [Ident e]" and "a \<noteq> e" and "lookup st e = Some body"
    and "body = [] \<or> (\<exists>s. body = [PragmaOp s])"
  shows "expansion st a = body \<and> expansion st e = body"
  using assms by (auto simp add: expansion_def lookup_def)

subsection \<open>Definitions the including file has made\<close>

lemma kept_RT_EXT_API_GROUP_BEGIN:
  "lookup st ''RT_EXT_API_GROUP_BEGIN'' = Some body \<Longrightarrow>
     lookup (api_attrs_h st) ''RT_EXT_API_GROUP_BEGIN'' = Some body"
  by (simp add: api_attrs_h_def attrs_part_def frames def_RT_EXT_API_GROUP_BEGIN_def
      is_defined_def lookup_define_macro)

lemma kept_RT_EXT_API_GROUP_END:
  "lookup st ''RT_EXT_API_GROUP_END'' = Some body \<Longrightarrow>
     lookup (api_attrs_h st) ''RT_EXT_API_GROUP_END'' = Some body"
  by (simp add: api_attrs_h_def attrs_part_def frames def_RT_EXT_API_GROUP_END_def
      is_defined_def lookup_define_macro)

lemma kept_RT_VAR_GROUP_BEGIN:
  "lookup st ''RT_VAR_GROUP_BEGIN'' = Some body \<Longrightarrow>
     lookup (api_attrs_h st) ''RT_VAR_GROUP_BEGIN'' = Some body"
  by (simp add: api_attrs_h_def attrs_part_def frames def_RT_VAR_GROUP_BEGIN_def
      is_defined_def lookup_define_macro)

lemma kept_RT_VAR_GROUP_END:
  "lookup st ''RT_VAR_GROUP_END'' = Some body \<Longrightarrow>
     lookup (api_attrs_h st) ''RT_VAR_GROUP_END'' = Some body"
  by (simp add: api_attrs_h_def attrs_part_def frames def_RT_VAR_GROUP_END_def
      is_defined_def lookup_define_macro)

lemma kept_RT_API_ATTRS:
  "lookup st ''RT_API_ATTRS'' = Some body \<Longrightarrow>
     lookup (api_attrs_h st) ''RT_API_ATTRS'' = Some body"
  by (simp add: api_attrs_h_def attrs_part_def frames def_RT_API_ATTRS_def
      is_defined_def lookup_define_macro)

lemma kept_RT_CONST_VAR_ATTRS:
  "lookup st ''RT_CONST_VAR_ATTRS'' = Some body \<Longrightarrow>
     lookup (api_attrs_h st) ''RT_CONST_VAR_ATTRS'' = Some body"
  by (simp add: api_attrs_h_def attrs_part_def frames def_RT_CONST_VAR_ATTRS_def
      is_defined_def lookup_define_macro)

lemma kept_RT_VAR_ATTRS:
  "lookup st ''RT_VAR_ATTRS'' = Some body \<Longrightarrow>
     lookup (api_attrs_h st) ''RT_VAR_ATTRS'' = Some body"
  by (simp add: api_attrs_h_def attrs_part_def frames def_RT_VAR_ATTRS_def
      is_defined_def lookup_define_macro)

lemmas kept_attrs = kept_RT_EXT_API_GROUP_BEGIN kept_RT_EXT_API_GROUP_END
  kept_RT_VAR_GROUP_BEGIN kept_RT_VAR_GROUP_END kept_RT_API_ATTRS kept_RT_CONST_VAR_ATTRS
  kept_RT_VAR_ATTRS

lemma kept_endianness:
  "lookup st ''FLANG_LITTLE_ENDIAN'' = Some body \<Longrightarrow>
     lookup (api_attrs_h st) ''FLANG_LITTLE_ENDIAN'' = Some body"
  "lookup st ''FLANG_BIG_ENDIAN'' = Some body \<Longrightarrow>
     lookup (api_attrs_h st) ''FLANG_BIG_ENDIAN'' = Some body"
  by (simp_all add: api_attrs_h_def state_at_line_193_def [symmetric] detect_endianness_def
      is_defined_def lookup_state_at_line_193)

section \<open>The claims\<close>

text \<open>
  C1. Where the including file has not defined them itself, the delimiters of the groups of
  exported functions have, after the first inclusion of the header: with
  \<^verbatim>\<open>OMP_NOHOST_BUILD\<close> defined, \<^verbatim>\<open>RT_EXT_API_GROUP_BEGIN\<close> expands to the pragma that opens
  a declare-target region of device type nohost and \<^verbatim>\<open>RT_EXT_API_GROUP_END\<close> to the
  pragma that ends a declare-target region; with \<^verbatim>\<open>OMP_OFFLOAD_BUILD\<close> defined and
  \<^verbatim>\<open>OMP_NOHOST_BUILD\<close> not, BEGIN expands to the pragma that opens a declare-target region
  and END to the one that ends it; with neither defined both expand to no token at all.
\<close>

theorem ext_api_group_expansions:
  assumes "\<not> is_defined st ''FORTRAN_RUNTIME_API_ATTRS_H_''"
    and "\<not> is_defined st ''RT_EXT_API_GROUP_BEGIN''"
    and "\<not> is_defined st ''RT_EXT_API_GROUP_END''"
  shows "(is_defined st ''OMP_NOHOST_BUILD'' \<longrightarrow>
            expansion (api_attrs_h st) ''RT_EXT_API_GROUP_BEGIN''
              = [PragmaOp ''omp begin declare target device_type(nohost)'']
          \<and> expansion (api_attrs_h st) ''RT_EXT_API_GROUP_END''
              = [PragmaOp ''omp end declare target''])
       \<and> (is_defined st ''OMP_OFFLOAD_BUILD'' \<and> \<not> is_defined st ''OMP_NOHOST_BUILD'' \<longrightarrow>
            expansion (api_attrs_h st) ''RT_EXT_API_GROUP_BEGIN''
              = [PragmaOp ''omp declare target'']
          \<and> expansion (api_attrs_h st) ''RT_EXT_API_GROUP_END''
              = [PragmaOp ''omp end declare target''])
       \<and> (\<not> is_defined st ''OMP_OFFLOAD_BUILD'' \<and> \<not> is_defined st ''OMP_NOHOST_BUILD'' \<longrightarrow>
            expansion (api_attrs_h st) ''RT_EXT_API_GROUP_BEGIN'' = []
          \<and> expansion (api_attrs_h st) ''RT_EXT_API_GROUP_END'' = [])"
proof -
  note b = final_EXT_BEGIN [OF assms(1) assms(2), THEN expansion_of_defined]
  note e = final_EXT_END [OF assms(1) assms(3), THEN expansion_of_defined]
  show ?thesis
    by (simp add: b e)
qed

theorem ext_api_group_expansions_witness:
  "expansion (api_attrs_h omp_nohost_build) ''RT_EXT_API_GROUP_BEGIN''
     = [PragmaOp ''omp begin declare target device_type(nohost)'']
   \<and> expansion (api_attrs_h omp_nohost_build) ''RT_EXT_API_GROUP_END''
     = [PragmaOp ''omp end declare target'']
   \<and> expansion (api_attrs_h omp_offload_build) ''RT_EXT_API_GROUP_BEGIN''
     = [PragmaOp ''omp declare target'']
   \<and> expansion (api_attrs_h omp_offload_build) ''RT_EXT_API_GROUP_END''
     = [PragmaOp ''omp end declare target'']
   \<and> expansion (api_attrs_h host_little) ''RT_EXT_API_GROUP_BEGIN'' = []
   \<and> expansion (api_attrs_h host_little) ''RT_EXT_API_GROUP_END'' = []"
  using ext_api_group_expansions [of omp_nohost_build]
    ext_api_group_expansions [of omp_offload_build]
    ext_api_group_expansions [of host_little]
  by (simp add: omp_nohost_build_def omp_offload_build_def host_little_def
      is_defined_def lookup_def)

text \<open>
  C2. With neither \<^verbatim>\<open>FLANG_LITTLE_ENDIAN\<close> nor \<^verbatim>\<open>FLANG_BIG_ENDIAN\<close> defined before the
  inclusion, the header decides in this order: if \<^verbatim>\<open>_MSC_VER\<close> or \<^verbatim>\<open>_WIN32\<close> is defined
  it defines the little-endian flag; otherwise, if \<^verbatim>\<open>__BYTE_ORDER__\<close> is defined and equal
  to \<^verbatim>\<open>__ORDER_LITTLE_ENDIAN__\<close> it defines the little-endian flag; otherwise, if it is
  defined and equal to \<^verbatim>\<open>__ORDER_BIG_ENDIAN__\<close> it defines the big-endian flag; otherwise
  it fails with the message \<^verbatim>\<open>Unknown or unsupported endianness.\<close> and defines neither.
  The three byte-order macros are taken as the compilers predefine them: each is, where
  line 193 stands, either not defined (and counts as 0) or expands to one integer constant
  in the range of \<^verbatim>\<open>intmax_t\<close>; \<open>bo\<close>, \<open>little\<close> and \<open>big\<close> are their values, and equal
  means that the values are the same integer.
\<close>

theorem endianness_decision_order:
  assumes "\<not> is_defined st ''FORTRAN_RUNTIME_API_ATTRS_H_''"
    and "\<not> is_defined st ''FLANG_LITTLE_ENDIAN''"
    and "\<not> is_defined st ''FLANG_BIG_ENDIAN''"
    and "if_value (state_at_line_193 st) ''__BYTE_ORDER__'' = Some bo"
    and "if_value (state_at_line_193 st) ''__ORDER_LITTLE_ENDIAN__'' = Some little"
    and "if_value (state_at_line_193 st) ''__ORDER_BIG_ENDIAN__'' = Some big"
  shows "(if is_defined st ''_MSC_VER'' \<or> is_defined st ''_WIN32'' then
            lookup (api_attrs_h st) ''FLANG_LITTLE_ENDIAN'' = Some [IntLit 1]
            \<and> lookup (api_attrs_h st) ''FLANG_BIG_ENDIAN'' = None
            \<and> errors (api_attrs_h st) = errors st
          else if is_defined st ''__BYTE_ORDER__'' \<and> bo = little then
            lookup (api_attrs_h st) ''FLANG_LITTLE_ENDIAN'' = Some [IntLit 1]
            \<and> lookup (api_attrs_h st) ''FLANG_BIG_ENDIAN'' = None
            \<and> errors (api_attrs_h st) = errors st
          else if is_defined st ''__BYTE_ORDER__'' \<and> bo = big then
            lookup (api_attrs_h st) ''FLANG_BIG_ENDIAN'' = Some [IntLit 1]
            \<and> lookup (api_attrs_h st) ''FLANG_LITTLE_ENDIAN'' = None
            \<and> errors (api_attrs_h st) = errors st
          else
            lookup (api_attrs_h st) ''FLANG_LITTLE_ENDIAN'' = None
            \<and> lookup (api_attrs_h st) ''FLANG_BIG_ENDIAN'' = None
            \<and> errors (api_attrs_h st) = errors st @ [''Unknown or unsupported endianness.''])"
proof -
  have tests:
    "byte_order_is (state_at_line_193 st) ''__ORDER_LITTLE_ENDIAN__''
       = Some (is_defined st ''__BYTE_ORDER__'' \<and> bo = little)"
    "byte_order_is (state_at_line_193 st) ''__ORDER_BIG_ENDIAN__''
       = Some (is_defined st ''__BYTE_ORDER__'' \<and> bo = big)"
    using assms(4-6)
    by (simp_all add: byte_order_is_def is_defined_def lookup_byte_order_at_line_193)
  from assms(1-3) show ?thesis
    by (simp add: api_attrs_h_first detect_endianness_def tests is_defined_def
        lookup_state_at_line_193 errors_state_at_line_193 lookup_define_macro lookup_pp_error
        errors_define_macro errors_pp_error)
qed

theorem endianness_decision_order_witness:
  "lookup (api_attrs_h host_windows) ''FLANG_LITTLE_ENDIAN'' = Some [IntLit 1]
   \<and> lookup (api_attrs_h host_windows) ''FLANG_BIG_ENDIAN'' = None
   \<and> lookup (api_attrs_h host_little) ''FLANG_LITTLE_ENDIAN'' = Some [IntLit 1]
   \<and> lookup (api_attrs_h host_little) ''FLANG_BIG_ENDIAN'' = None
   \<and> lookup (api_attrs_h host_big) ''FLANG_BIG_ENDIAN'' = Some [IntLit 1]
   \<and> lookup (api_attrs_h host_big) ''FLANG_LITTLE_ENDIAN'' = None
   \<and> errors (api_attrs_h host_unknown) = [''Unknown or unsupported endianness.'']"
  using endianness_decision_order [of host_windows 0 0 0]
    endianness_decision_order [of host_little 1234 1234 4321]
    endianness_decision_order [of host_big 4321 1234 4321]
    endianness_decision_order [of host_unknown 0 0 0]
  by (simp add: if_value_def is_defined_def map_of_macros
      lookup_byte_order_at_line_193 lookup_literal host_windows_def host_little_def
      host_big_def host_unknown_def)

text \<open>
  C3, as the code has it. The header looks for the endianness only where neither flag is
  defined; where the including file has defined both, both stay defined and no error is
  raised (\<open>both_flags_preset\<close>). So: when the header is included for the first time in a
  translation unit without errors so far, the including file has not defined both
  \<^verbatim>\<open>FLANG_LITTLE_ENDIAN\<close> and \<^verbatim>\<open>FLANG_BIG_ENDIAN\<close>, and each of the three byte-order macros
  is, where line 193 stands, either not defined or expands to one integer constant in the
  range of \<^verbatim>\<open>intmax_t\<close> (values \<open>bo\<close>, \<open>little\<close>, \<open>big\<close>; not defined counts as 0), then
  exactly one of the two flags is defined afterwards whenever processing succeeds, and
  processing fails, with the message \<^verbatim>\<open>Unknown or unsupported endianness.\<close>, exactly when
  neither flag was defined before, neither \<^verbatim>\<open>_MSC_VER\<close> nor \<^verbatim>\<open>_WIN32\<close> is defined, and
  \<^verbatim>\<open>__BYTE_ORDER__\<close> is not defined with the value of \<^verbatim>\<open>__ORDER_LITTLE_ENDIAN__\<close> or of
  \<^verbatim>\<open>__ORDER_BIG_ENDIAN__\<close>.
\<close>

theorem endianness_exactly_one:
  assumes "\<not> is_defined st ''FORTRAN_RUNTIME_API_ATTRS_H_''"
    and "\<not> (is_defined st ''FLANG_LITTLE_ENDIAN'' \<and> is_defined st ''FLANG_BIG_ENDIAN'')"
    and "succeeds st"
    and "if_value (state_at_line_193 st) ''__BYTE_ORDER__'' = Some bo"
    and "if_value (state_at_line_193 st) ''__ORDER_LITTLE_ENDIAN__'' = Some little"
    and "if_value (state_at_line_193 st) ''__ORDER_BIG_ENDIAN__'' = Some big"
  shows "(succeeds (api_attrs_h st) \<longrightarrow>
            (is_defined (api_attrs_h st) ''FLANG_LITTLE_ENDIAN''
               \<longleftrightarrow> \<not> is_defined (api_attrs_h st) ''FLANG_BIG_ENDIAN''))
       \<and> (\<not> succeeds (api_attrs_h st) \<longleftrightarrow>
            \<not> is_defined st ''FLANG_LITTLE_ENDIAN'' \<and> \<not> is_defined st ''FLANG_BIG_ENDIAN''
            \<and> \<not> is_defined st ''_MSC_VER'' \<and> \<not> is_defined st ''_WIN32''
            \<and> \<not> (is_defined st ''__BYTE_ORDER__'' \<and> (bo = little \<or> bo = big)))
       \<and> (\<not> succeeds (api_attrs_h st) \<longrightarrow>
            errors (api_attrs_h st) = [''Unknown or unsupported endianness.''])"
proof (cases "is_defined st ''FLANG_LITTLE_ENDIAN'' \<or> is_defined st ''FLANG_BIG_ENDIAN''")
  case True
  then have "detect_endianness (state_at_line_193 st) = state_at_line_193 st"
    by (auto simp add: detect_endianness_def is_defined_def lookup_state_at_line_193)
  with assms(1) have "api_attrs_h st = state_at_line_193 st"
    by (simp add: api_attrs_h_first)
  with True assms(2,3) show ?thesis
    by (auto simp add: succeeds_def is_defined_def lookup_state_at_line_193
        errors_state_at_line_193)
next
  case False
  have tests:
    "byte_order_is (state_at_line_193 st) ''__ORDER_LITTLE_ENDIAN__''
       = Some (is_defined st ''__BYTE_ORDER__'' \<and> bo = little)"
    "byte_order_is (state_at_line_193 st) ''__ORDER_BIG_ENDIAN__''
       = Some (is_defined st ''__BYTE_ORDER__'' \<and> bo = big)"
    using assms(4-6)
    by (simp_all add: byte_order_is_def is_defined_def lookup_byte_order_at_line_193)
  from False assms(1,3) show ?thesis
    by (auto simp add: api_attrs_h_first detect_endianness_def tests succeeds_def is_defined_def
        lookup_state_at_line_193 errors_state_at_line_193 lookup_define_macro lookup_pp_error
        errors_define_macro errors_pp_error)
qed

theorem endianness_exactly_one_witness:
  "succeeds (api_attrs_h host_big)
   \<and> is_defined (api_attrs_h host_big) ''FLANG_BIG_ENDIAN''
   \<and> \<not> is_defined (api_attrs_h host_big) ''FLANG_LITTLE_ENDIAN''
   \<and> \<not> succeeds (api_attrs_h host_unknown)
   \<and> errors (api_attrs_h host_unknown) = [''Unknown or unsupported endianness.'']"
proof -
  have vals: "if_value (state_at_line_193 host_big) ''__BYTE_ORDER__'' = Some 4321"
    "if_value (state_at_line_193 host_big) ''__ORDER_LITTLE_ENDIAN__'' = Some 1234"
    "if_value (state_at_line_193 host_big) ''__ORDER_BIG_ENDIAN__'' = Some 4321"
    by (simp_all add: if_value_def map_of_macros lookup_byte_order_at_line_193
        lookup_literal host_big_def)
  have pre: "\<not> is_defined host_big ''FORTRAN_RUNTIME_API_ATTRS_H_''"
    "\<not> is_defined host_big ''FLANG_LITTLE_ENDIAN''"
    "\<not> is_defined host_big ''FLANG_BIG_ENDIAN''"
    "\<not> is_defined host_big ''_MSC_VER''" "\<not> is_defined host_big ''_WIN32''"
    "is_defined host_big ''__BYTE_ORDER__''"
    "succeeds host_big"
    by (simp_all add: is_defined_def lookup_literal succeeds_def host_big_def)
  have unknown: "\<not> is_defined host_unknown ''FORTRAN_RUNTIME_API_ATTRS_H_''"
    "\<not> is_defined host_unknown ''FLANG_LITTLE_ENDIAN''"
    "\<not> is_defined host_unknown ''FLANG_BIG_ENDIAN''"
    "\<not> is_defined host_unknown ''_MSC_VER''" "\<not> is_defined host_unknown ''_WIN32''"
    "\<not> is_defined host_unknown ''__BYTE_ORDER__''"
    "if_value (state_at_line_193 host_unknown) ''__BYTE_ORDER__'' = Some 0"
    "if_value (state_at_line_193 host_unknown) ''__ORDER_LITTLE_ENDIAN__'' = Some 0"
    "if_value (state_at_line_193 host_unknown) ''__ORDER_BIG_ENDIAN__'' = Some 0"
    "succeeds host_unknown"
    by (simp_all add: if_value_def is_defined_def lookup_byte_order_at_line_193
        lookup_literal succeeds_def host_unknown_def)
  note big = endianness_exactly_one [of host_big 4321 1234 4321]
  note none = endianness_exactly_one [of host_unknown 0 0 0]
  have ok: "succeeds (api_attrs_h host_big)"
    using big pre vals by simp
  moreover have "lookup (api_attrs_h host_big) ''FLANG_BIG_ENDIAN'' = Some [IntLit 1]"
    using pre vals
    by (simp add: api_attrs_h_first detect_endianness_def byte_order_is_def is_defined_def
        lookup_state_at_line_193 lookup_byte_order_at_line_193 lookup_define_macro)
  then have "is_defined (api_attrs_h host_big) ''FLANG_BIG_ENDIAN''"
    by (simp add: is_defined_def)
  moreover from this ok have "\<not> is_defined (api_attrs_h host_big) ''FLANG_LITTLE_ENDIAN''"
    using big pre vals by simp
  moreover have "\<not> succeeds (api_attrs_h host_unknown)"
    "errors (api_attrs_h host_unknown) = [''Unknown or unsupported endianness.'']"
    using none unknown by simp_all
  ultimately show ?thesis by simp
qed

theorem both_flags_preset_counterexample:
  "succeeds (api_attrs_h both_flags_preset)
   \<and> is_defined (api_attrs_h both_flags_preset) ''FLANG_LITTLE_ENDIAN''
   \<and> is_defined (api_attrs_h both_flags_preset) ''FLANG_BIG_ENDIAN''"
proof -
  have "\<not> is_defined both_flags_preset ''FORTRAN_RUNTIME_API_ATTRS_H_''"
    by (simp add: is_defined_def lookup_literal both_flags_preset_def)
  then have "api_attrs_h both_flags_preset = state_at_line_193 both_flags_preset"
    by (simp add: api_attrs_h_first detect_endianness_def is_defined_def
        lookup_state_at_line_193 lookup_literal both_flags_preset_def)
  then show ?thesis
    by (simp add: succeeds_def is_defined_def errors_state_at_line_193
        lookup_state_at_line_193) (simp add: lookup_literal both_flags_preset_def)
qed

text \<open>
  C4, as the code has it. Only some of the macros are defined under a test that they are
  not defined yet. \<^verbatim>\<open>RT_DEVICE_COMPILATION\<close> is not: in a host build the header removes the
  definition the including file has made (\<open>device_compilation_preset\<close>). So: for each of
  \<^verbatim>\<open>RT_EXT_API_GROUP_BEGIN\<close>, \<^verbatim>\<open>RT_EXT_API_GROUP_END\<close>, \<^verbatim>\<open>RT_VAR_GROUP_BEGIN\<close>,
  \<^verbatim>\<open>RT_VAR_GROUP_END\<close>, \<^verbatim>\<open>RT_API_ATTRS\<close>, \<^verbatim>\<open>RT_CONST_VAR_ATTRS\<close>, \<^verbatim>\<open>RT_VAR_ATTRS\<close>,
  \<^verbatim>\<open>FLANG_LITTLE_ENDIAN\<close> and \<^verbatim>\<open>FLANG_BIG_ENDIAN\<close>, a definition made before the inclusion
  is the definition after it. For each of the other thirteen macros
  (\<^verbatim>\<open>RT_OFFLOAD_API_GROUP_BEGIN/END\<close>, \<^verbatim>\<open>RT_OFFLOAD_VAR_GROUP_BEGIN/END\<close>,
  \<^verbatim>\<open>RT_DEVICE_COMPILATION\<close>, \<^verbatim>\<open>RT_DEVICE_AVOID_RECURSION\<close>, \<^verbatim>\<open>RT_DIAG_PUSH\<close>, \<^verbatim>\<open>RT_DIAG_POP\<close>,
  \<^verbatim>\<open>RT_DIAG_DISABLE_CALL_HOST_FROM_DEVICE_WARN\<close>, \<^verbatim>\<open>RT_NOINLINE_ATTR\<close>, \<^verbatim>\<open>RT_DEVICE_NOINLINE\<close>,
  \<^verbatim>\<open>RT_DEVICE_NOINLINE_HOST_INLINE\<close>, \<^verbatim>\<open>RT_OPTNONE_ATTR\<close>) the first inclusion sets or removes
  the definition without regard to an earlier one: what the macro is afterwards is what
  it would be had the including file not defined it.
\<close>

theorem guarded_macros_kept:
  "(n \<in> set guarded_macros \<and> lookup st n = Some body \<longrightarrow>
      lookup (api_attrs_h st) n = Some body)
   \<and> (n \<in> set unguarded_macros \<and> \<not> is_defined st ''FORTRAN_RUNTIME_API_ATTRS_H_'' \<longrightarrow>
      lookup (api_attrs_h st) n = lookup (api_attrs_h (undef_macro n st)) n)"
proof (intro conjI impI; elim conjE)
  assume "n \<in> set guarded_macros" and "lookup st n = Some body"
  then show "lookup (api_attrs_h st) n = Some body"
    unfolding guarded_macros_def
    by (auto simp only: set_simps insert_iff empty_iff intro: kept_attrs kept_endianness)
next
  assume "n \<in> set unguarded_macros" and "\<not> is_defined st ''FORTRAN_RUNTIME_API_ATTRS_H_''"
  then show "lookup (api_attrs_h st) n = lookup (api_attrs_h (undef_macro n st)) n"
    unfolding unguarded_macros_def
    by (auto simp only: set_simps insert_iff empty_iff intro: overwritten)
qed

theorem guarded_macros_kept_witness:
  "''RT_API_ATTRS'' \<in> set guarded_macros
   \<and> lookup api_attrs_preset ''RT_API_ATTRS'' = Some [Ident ''__device__'']
   \<and> lookup (api_attrs_h api_attrs_preset) ''RT_API_ATTRS'' = Some [Ident ''__device__'']
   \<and> ''RT_DEVICE_COMPILATION'' \<in> set unguarded_macros
   \<and> \<not> is_defined device_compilation_preset ''FORTRAN_RUNTIME_API_ATTRS_H_''
   \<and> lookup (api_attrs_h device_compilation_preset) ''RT_DEVICE_COMPILATION''
       = lookup (api_attrs_h (undef_macro ''RT_DEVICE_COMPILATION'' device_compilation_preset))
           ''RT_DEVICE_COMPILATION''"
proof -
  have n: "''RT_API_ATTRS'' \<in> set guarded_macros"
    by (simp add: guarded_macros_def)
  have l: "lookup api_attrs_preset ''RT_API_ATTRS'' = Some [Ident ''__device__'']"
    by (simp add: lookup_literal api_attrs_preset_def)
  have m: "''RT_DEVICE_COMPILATION'' \<in> set unguarded_macros"
    by (simp add: unguarded_macros_def)
  have g: "\<not> is_defined device_compilation_preset ''FORTRAN_RUNTIME_API_ATTRS_H_''"
    by (simp add: is_defined_def lookup_literal device_compilation_preset_def)
  from n l m g
    guarded_macros_kept [of "''RT_API_ATTRS''" api_attrs_preset "[Ident ''__device__'']"]
    guarded_macros_kept [of "''RT_DEVICE_COMPILATION''" device_compilation_preset]
  show ?thesis by blast
qed

theorem device_compilation_preset_counterexample:
  "lookup device_compilation_preset ''RT_DEVICE_COMPILATION'' = Some [IntLit 1]
   \<and> lookup (api_attrs_h device_compilation_preset) ''RT_DEVICE_COMPILATION'' = None"
  using final_DEVICE_COMPILATION [of device_compilation_preset]
  by (simp add: is_defined_def lookup_literal device_compilation_preset_def)

text \<open>
  C5, as the code has it. In the device pass of a CUDA compilation the header defines
  \<^verbatim>\<open>RT_DEVICE_NOINLINE_HOST_INLINE\<close> with an empty replacement list, not with the
  no-inline attribute (\<open>cuda_device_pass\<close>). So: after the first inclusion
  \<^verbatim>\<open>RT_DEVICE_NOINLINE_HOST_INLINE\<close> expands to no token when a CUDA compiler macro
  (\<^verbatim>\<open>__CUDACC__\<close> or \<^verbatim>\<open>__CUDA__\<close>) and \<^verbatim>\<open>__CUDA_ARCH__\<close> are defined, and to the keyword
  \<^verbatim>\<open>inline\<close> in every other configuration.
\<close>

theorem device_noinline_host_inline:
  assumes "\<not> is_defined st ''FORTRAN_RUNTIME_API_ATTRS_H_''"
  shows "lookup (api_attrs_h st) ''RT_DEVICE_NOINLINE_HOST_INLINE'' =
     Some (if (is_defined st ''__CUDACC__'' \<or> is_defined st ''__CUDA__'')
              \<and> is_defined st ''__CUDA_ARCH__''
           then [] else [Ident ''inline''])"
  using assms by (rule final_DEVICE_NOINLINE(2))

theorem device_noinline_host_inline_witness:
  "\<not> is_defined cuda_host_pass ''FORTRAN_RUNTIME_API_ATTRS_H_''
   \<and> lookup (api_attrs_h cuda_host_pass) ''RT_DEVICE_NOINLINE_HOST_INLINE''
       = Some [Ident ''inline'']"
  using device_noinline_host_inline [of cuda_host_pass]
  by (simp add: is_defined_def lookup_literal cuda_host_pass_def)

theorem device_pass_hybrid_counterexample:
  "lookup (api_attrs_h cuda_device_pass) ''RT_DEVICE_NOINLINE_HOST_INLINE'' = Some []
   \<and> expansion (api_attrs_h cuda_device_pass) ''RT_DEVICE_NOINLINE_HOST_INLINE'' = []
   \<and> lookup (api_attrs_h cuda_device_pass) ''RT_NOINLINE_ATTR''
       = Some [Ident ''__attribute__'', Punct ''('', Punct ''('', Ident ''noinline'',
               Punct '')'', Punct '')'']
   \<and> lookup (api_attrs_h cuda_device_pass) ''RT_DEVICE_NOINLINE''
       = Some [Ident ''RT_NOINLINE_ATTR'']"
proof -
  have first: "\<not> is_defined cuda_device_pass ''FORTRAN_RUNTIME_API_ATTRS_H_''"
    by (simp add: is_defined_def lookup_literal cuda_device_pass_def)
  have hybrid: "lookup (api_attrs_h cuda_device_pass) ''RT_DEVICE_NOINLINE_HOST_INLINE'' = Some []"
    using final_DEVICE_NOINLINE(2) [OF first]
    by (simp add: is_defined_def lookup_literal cuda_device_pass_def)
  have "expansion (api_attrs_h cuda_device_pass) ''RT_DEVICE_NOINLINE_HOST_INLINE'' = []"
    using expansion_of_defined [OF hybrid] by simp
  moreover have "lookup (api_attrs_h cuda_device_pass) ''RT_NOINLINE_ATTR''
       = Some [Ident ''__attribute__'', Punct ''('', Punct ''('', Ident ''noinline'',
               Punct '')'', Punct '')'']"
    using final_NOINLINE_ATTR [OF first]
    by (simp add: has_attr_def cuda_device_pass_def)
  moreover have "lookup (api_attrs_h cuda_device_pass) ''RT_DEVICE_NOINLINE''
       = Some [Ident ''RT_NOINLINE_ATTR'']"
    using final_DEVICE_NOINLINE(1) [OF first]
    by (simp add: is_defined_def lookup_literal cuda_device_pass_def)
  ultimately show ?thesis using hybrid by simp
qed

text \<open>
  C6. After the first inclusion \<^verbatim>\<open>RT_DEVICE_COMPILATION\<close> is defined as \<^verbatim>\<open>1\<close> if a CUDA
  compiler macro (\<^verbatim>\<open>__CUDACC__\<close> or \<^verbatim>\<open>__CUDA__\<close>) is defined together with \<^verbatim>\<open>__CUDA_ARCH__\<close>,
  or \<^verbatim>\<open>_OPENMP\<close> together with \<^verbatim>\<open>__AMDGCN__\<close> or \<^verbatim>\<open>__NVPTX__\<close>; in every other case it is
  not defined, whatever the including file had made of it.
\<close>

theorem device_compilation_indicator:
  assumes "\<not> is_defined st ''FORTRAN_RUNTIME_API_ATTRS_H_''"
  shows "lookup (api_attrs_h st) ''RT_DEVICE_COMPILATION'' =
     (if ((is_defined st ''__CUDACC__'' \<or> is_defined st ''__CUDA__'')
          \<and> is_defined st ''__CUDA_ARCH__'')
         \<or> (is_defined st ''_OPENMP''
             \<and> (is_defined st ''__AMDGCN__'' \<or> is_defined st ''__NVPTX__''))
      then Some [IntLit 1] else None)"
  using assms by (rule final_DEVICE_COMPILATION)

theorem device_compilation_indicator_witness:
  "lookup (api_attrs_h cuda_device_pass) ''RT_DEVICE_COMPILATION'' = Some [IntLit 1]
   \<and> lookup (api_attrs_h omp_nohost_build) ''RT_DEVICE_COMPILATION'' = Some [IntLit 1]
   \<and> lookup (api_attrs_h cuda_host_pass) ''RT_DEVICE_COMPILATION'' = None
   \<and> lookup (api_attrs_h omp_offload_build) ''RT_DEVICE_COMPILATION'' = None"
  using device_compilation_indicator [of cuda_device_pass]
    device_compilation_indicator [of omp_nohost_build]
    device_compilation_indicator [of cuda_host_pass]
    device_compilation_indicator [of omp_offload_build]
  by (simp add: is_defined_def lookup_literal cuda_device_pass_def omp_nohost_build_def
      cuda_host_pass_def omp_offload_build_def)

text \<open>
  C7. Where the including file has not defined it, \<^verbatim>\<open>RT_API_ATTRS\<close> has after the first
  inclusion the replacement list \<^verbatim>\<open>__host__ __device__\<close> whenever a CUDA compiler macro
  (\<^verbatim>\<open>__CUDACC__\<close> or \<^verbatim>\<open>__CUDA__\<close>) is defined, in the host pass as in the device pass, and
  the empty replacement list in every other configuration.
\<close>

theorem api_attrs_expansion:
  assumes "\<not> is_defined st ''FORTRAN_RUNTIME_API_ATTRS_H_''"
    and "\<not> is_defined st ''RT_API_ATTRS''"
  shows "lookup (api_attrs_h st) ''RT_API_ATTRS'' =
     Some (if is_defined st ''__CUDACC__'' \<or> is_defined st ''__CUDA__''
           then [Ident ''__host__'', Ident ''__device__''] else [])"
  using assms by (rule final_API_ATTRS)

theorem api_attrs_expansion_witness:
  "lookup (api_attrs_h cuda_host_pass) ''RT_API_ATTRS''
     = Some [Ident ''__host__'', Ident ''__device__'']
   \<and> lookup (api_attrs_h cuda_device_pass) ''RT_API_ATTRS''
     = Some [Ident ''__host__'', Ident ''__device__'']
   \<and> lookup (api_attrs_h omp_offload_build) ''RT_API_ATTRS'' = Some []"
  using api_attrs_expansion [of cuda_host_pass] api_attrs_expansion [of cuda_device_pass]
    api_attrs_expansion [of omp_offload_build]
  by (simp add: is_defined_def lookup_literal cuda_device_pass_def cuda_host_pass_def
      omp_offload_build_def)

text \<open>
  C8. Where the including file has not defined them, after the first inclusion
  \<^verbatim>\<open>RT_CONST_VAR_ATTRS\<close> has the replacement list \<^verbatim>\<open>__constant__\<close> and \<^verbatim>\<open>RT_VAR_ATTRS\<close> the
  replacement list \<^verbatim>\<open>__device__\<close> exactly when a CUDA compiler macro and \<^verbatim>\<open>__CUDA_ARCH__\<close>
  are both defined; in every other configuration both have the empty replacement list.
\<close>

theorem var_attrs_expansion:
  assumes "\<not> is_defined st ''FORTRAN_RUNTIME_API_ATTRS_H_''"
    and "\<not> is_defined st ''RT_CONST_VAR_ATTRS''"
    and "\<not> is_defined st ''RT_VAR_ATTRS''"
  shows "lookup (api_attrs_h st) ''RT_CONST_VAR_ATTRS'' =
           Some (if (is_defined st ''__CUDACC__'' \<or> is_defined st ''__CUDA__'')
                    \<and> is_defined st ''__CUDA_ARCH__''
                 then [Ident ''__constant__''] else [])
       \<and> lookup (api_attrs_h st) ''RT_VAR_ATTRS'' =
           Some (if (is_defined st ''__CUDACC__'' \<or> is_defined st ''__CUDA__'')
                    \<and> is_defined st ''__CUDA_ARCH__''
                 then [Ident ''__device__''] else [])"
  using final_CONST_VAR_ATTRS [OF assms(1,2)] final_VAR_ATTRS [OF assms(1,3)]
  by (rule conjI)

theorem var_attrs_expansion_witness:
  "lookup (api_attrs_h cuda_device_pass) ''RT_CONST_VAR_ATTRS'' = Some [Ident ''__constant__'']
   \<and> lookup (api_attrs_h cuda_device_pass) ''RT_VAR_ATTRS'' = Some [Ident ''__device__'']
   \<and> lookup (api_attrs_h cuda_host_pass) ''RT_CONST_VAR_ATTRS'' = Some []
   \<and> lookup (api_attrs_h cuda_host_pass) ''RT_VAR_ATTRS'' = Some []"
  using var_attrs_expansion [of cuda_device_pass] var_attrs_expansion [of cuda_host_pass]
  by (simp add: is_defined_def lookup_literal cuda_device_pass_def cuda_host_pass_def)

text \<open>
  C9. Where the including file has defined none of \<^verbatim>\<open>RT_EXT_API_GROUP_BEGIN\<close>,
  \<^verbatim>\<open>RT_EXT_API_GROUP_END\<close>, \<^verbatim>\<open>RT_VAR_GROUP_BEGIN\<close> and \<^verbatim>\<open>RT_VAR_GROUP_END\<close> itself, then in
  every configuration the delimiters \<^verbatim>\<open>RT_OFFLOAD_API_GROUP_BEGIN/END\<close>,
  \<^verbatim>\<open>RT_OFFLOAD_VAR_GROUP_BEGIN/END\<close> and \<^verbatim>\<open>RT_VAR_GROUP_BEGIN/END\<close> expand after the first
  inclusion to the same tokens as \<^verbatim>\<open>RT_EXT_API_GROUP_BEGIN/END\<close>.
\<close>

theorem group_delimiters_alias:
  assumes "\<not> is_defined st ''FORTRAN_RUNTIME_API_ATTRS_H_''"
    and "\<not> is_defined st ''RT_EXT_API_GROUP_BEGIN''"
    and "\<not> is_defined st ''RT_EXT_API_GROUP_END''"
    and "\<not> is_defined st ''RT_VAR_GROUP_BEGIN''"
    and "\<not> is_defined st ''RT_VAR_GROUP_END''"
  shows "expansion (api_attrs_h st) ''RT_OFFLOAD_API_GROUP_BEGIN''
           = expansion (api_attrs_h st) ''RT_EXT_API_GROUP_BEGIN''
       \<and> expansion (api_attrs_h st) ''RT_OFFLOAD_API_GROUP_END''
           = expansion (api_attrs_h st) ''RT_EXT_API_GROUP_END''
       \<and> expansion (api_attrs_h st) ''RT_OFFLOAD_VAR_GROUP_BEGIN''
           = expansion (api_attrs_h st) ''RT_EXT_API_GROUP_BEGIN''
       \<and> expansion (api_attrs_h st) ''RT_OFFLOAD_VAR_GROUP_END''
           = expansion (api_attrs_h st) ''RT_EXT_API_GROUP_END''
       \<and> expansion (api_attrs_h st) ''RT_VAR_GROUP_BEGIN''
           = expansion (api_attrs_h st) ''RT_EXT_API_GROUP_BEGIN''
       \<and> expansion (api_attrs_h st) ''RT_VAR_GROUP_END''
           = expansion (api_attrs_h st) ''RT_EXT_API_GROUP_END''"
proof -
  obtain b where b: "lookup (api_attrs_h st) ''RT_EXT_API_GROUP_BEGIN'' = Some b"
    and b_shape: "b = [] \<or> (\<exists>s. b = [PragmaOp s])"
    using final_EXT_BEGIN [OF assms(1,2)] by simp
  obtain e where e: "lookup (api_attrs_h st) ''RT_EXT_API_GROUP_END'' = Some e"
    and e_shape: "e = [] \<or> (\<exists>s. e = [PragmaOp s])"
    using final_EXT_END [OF assms(1,3)] by simp
  have "expansion (api_attrs_h st) ''RT_OFFLOAD_API_GROUP_BEGIN'' = b
      \<and> expansion (api_attrs_h st) ''RT_EXT_API_GROUP_BEGIN'' = b"
    by (rule expansion_alias [OF final_OFFLOAD(1) [OF assms(1)] _ b b_shape]) simp
  moreover have "expansion (api_attrs_h st) ''RT_OFFLOAD_API_GROUP_END'' = e
      \<and> expansion (api_attrs_h st) ''RT_EXT_API_GROUP_END'' = e"
    by (rule expansion_alias [OF final_OFFLOAD(2) [OF assms(1)] _ e e_shape]) simp
  moreover have "expansion (api_attrs_h st) ''RT_OFFLOAD_VAR_GROUP_BEGIN'' = b
      \<and> expansion (api_attrs_h st) ''RT_EXT_API_GROUP_BEGIN'' = b"
    by (rule expansion_alias [OF final_OFFLOAD(3) [OF assms(1)] _ b b_shape]) simp
  moreover have "expansion (api_attrs_h st) ''RT_OFFLOAD_VAR_GROUP_END'' = e
      \<and> expansion (api_attrs_h st) ''RT_EXT_API_GROUP_END'' = e"
    by (rule expansion_alias [OF final_OFFLOAD(4) [OF assms(1)] _ e e_shape]) simp
  moreover have "expansion (api_attrs_h st) ''RT_VAR_GROUP_BEGIN'' = b
      \<and> expansion (api_attrs_h st) ''RT_EXT_API_GROUP_BEGIN'' = b"
    by (rule expansion_alias [OF final_VAR_GROUP(1) [OF assms(1,4)] _ b b_shape]) simp
  moreover have "expansion (api_attrs_h st) ''RT_VAR_GROUP_END'' = e
      \<and> expansion (api_attrs_h st) ''RT_EXT_API_GROUP_END'' = e"
    by (rule expansion_alias [OF final_VAR_GROUP(2) [OF assms(1,5)] _ e e_shape]) simp
  ultimately show ?thesis by simp
qed

theorem group_delimiters_alias_witness:
  "expansion (api_attrs_h omp_offload_build) ''RT_OFFLOAD_API_GROUP_BEGIN''
     = expansion (api_attrs_h omp_offload_build) ''RT_EXT_API_GROUP_BEGIN''
   \<and> expansion (api_attrs_h omp_offload_build) ''RT_OFFLOAD_VAR_GROUP_END''
     = expansion (api_attrs_h omp_offload_build) ''RT_EXT_API_GROUP_END''
   \<and> expansion (api_attrs_h omp_offload_build) ''RT_VAR_GROUP_BEGIN''
     = expansion (api_attrs_h omp_offload_build) ''RT_EXT_API_GROUP_BEGIN''"
  using group_delimiters_alias [of omp_offload_build]
  by (simp add: is_defined_def lookup_literal omp_offload_build_def)

text \<open>
  C10. After the first inclusion, whenever \<^verbatim>\<open>RT_DEVICE_AVOID_RECURSION\<close> is defined,
  \<^verbatim>\<open>RT_DEVICE_COMPILATION\<close> is defined as well.
\<close>

theorem avoid_recursion_implies_device_compilation:
  assumes "\<not> is_defined st ''FORTRAN_RUNTIME_API_ATTRS_H_''"
    and "is_defined (api_attrs_h st) ''RT_DEVICE_AVOID_RECURSION''"
  shows "is_defined (api_attrs_h st) ''RT_DEVICE_COMPILATION''"
  using assms(2)
  unfolding is_defined_def final_DEVICE_AVOID_RECURSION [OF assms(1)]
    final_DEVICE_COMPILATION [OF assms(1)]
  by (simp split: if_splits)

theorem avoid_recursion_implies_device_compilation_witness:
  "\<not> is_defined cuda_device_pass ''FORTRAN_RUNTIME_API_ATTRS_H_''
   \<and> is_defined (api_attrs_h cuda_device_pass) ''RT_DEVICE_AVOID_RECURSION''
   \<and> is_defined (api_attrs_h cuda_device_pass) ''RT_DEVICE_COMPILATION''"
proof -
  have first: "\<not> is_defined cuda_device_pass ''FORTRAN_RUNTIME_API_ATTRS_H_''"
    by (simp add: is_defined_def lookup_literal cuda_device_pass_def)
  have avoid: "is_defined (api_attrs_h cuda_device_pass) ''RT_DEVICE_AVOID_RECURSION''"
    unfolding is_defined_def final_DEVICE_AVOID_RECURSION [OF first]
    by (simp add: is_defined_def lookup_literal cuda_device_pass_def)
  from first avoid avoid_recursion_implies_device_compilation [OF first avoid]
  show ?thesis by simp
qed

end
